theory Spec2Isabelle
  imports Complex_Main "HOL-Library.Sublist"
begin

section \<open>Python values, exceptions and string primitives\<close>

text \<open>
  The exceptions that the modelled code can raise. A computation that may raise has the
  type \<open>exn + 'a\<close>, with \<open>Inl\<close> for the raised exception.
\<close>

datatype exn = TypeError | ValueError | AttributeError | FileNotFoundError | OperationalError

text \<open>
  A Python \<open>str\<close> is modelled as a \<open>string\<close> whose characters are read as the code
  points below 256. \<open>str.upper()\<close> of a one-character string: the ASCII and Latin-1
  lower-case letters map to their upper-case letters, the sharp s (code point 223) maps to
  the two characters \<open>SS\<close>. The code points 181 and 255, whose upper-case letters lie above
  255, are left unchanged: in the code below they are only compared with ASCII text or clamped
  to 25, which gives the same result for both.
\<close>

definition upper_char :: "char \<Rightarrow> string" where
  "upper_char c =
     (let n = (of_char c :: nat) in
      if 97 \<le> n \<and> n \<le> 122 then [char_of (n - 32)]
      else if n = 223 then ''SS''
      else if 224 \<le> n \<and> n \<le> 254 \<and> n \<noteq> 247 then [char_of (n - 32)]
      else [c])"

definition py_upper :: "string \<Rightarrow> string" where
  "py_upper s = concat (map upper_char s)"

text \<open>\<open>ord(s)\<close>: raises TypeError unless \<open>s\<close> has exactly one character.\<close>

definition py_ord :: "string \<Rightarrow> exn + int" where
  "py_ord s = (case s of [c] \<Rightarrow> Inr (int (of_char c)) | _ \<Rightarrow> Inl TypeError)"

text \<open>
  \<open>int(c)\<close> for a one-character string \<open>c\<close>, the only way the code calls \<open>int\<close>:
  a decimal digit gives its value, every other character raises ValueError.
\<close>

definition py_int_char :: "char \<Rightarrow> exn + int" where
  "py_int_char c =
     (let n = (of_char c :: nat) in
      if 48 \<le> n \<and> n \<le> 57 then Inr (int n - 48) else Inl ValueError)"

text \<open>\<open>s.split(sep)\<close> for a one-character separator: never returns the empty list.\<close>

fun py_split :: "char \<Rightarrow> string \<Rightarrow> string list" where
  "py_split sep [] = [[]]"
| "py_split sep (c # cs) =
     (if c = sep then [] # py_split sep cs
      else (c # hd (py_split sep cs)) # tl (py_split sep cs))"

text \<open>\<open>pat in s\<close> for two strings.\<close>

fun py_contains :: "string \<Rightarrow> string \<Rightarrow> bool" where
  "py_contains pat [] = (pat = [])"
| "py_contains pat (c # cs) = (prefix pat (c # cs) \<or> py_contains pat cs)"

section \<open>Coordinate codec (src/utils/coordinates.py)\<close>

text \<open>
  The dictionaries returned by the codec are modelled as tuples of their values, in the key
  order \<open>x, y, z\<close>, then \<open>sx, sy, sz\<close>, then \<open>system_pos\<close>.
\<close>

type_synonym sector_coords = "int \<times> int \<times> int"
type_synonym subsector_coords = "int \<times> int \<times> int \<times> int \<times> int \<times> int"
type_synonym system_coords = "int \<times> int \<times> int \<times> int \<times> int \<times> int \<times> int"

text \<open>
  The body of the \<open>try\<close> block of \<open>get_coordinates_from_sector\<close>. It runs only when the
  string has at least three characters, so the three index reads are in range.
\<close>

definition sector_try :: "string \<Rightarrow> exn + sector_coords" where
  "sector_try location =
     (case py_ord (py_upper [location ! 0]) of
        Inl e \<Rightarrow> Inl e
      | Inr o0 \<Rightarrow>
     (case py_ord (py_upper [location ! 1]) of
        Inl e \<Rightarrow> Inl e
      | Inr o1 \<Rightarrow>
     (case py_ord (py_upper [location ! 2]) of
        Inl e \<Rightarrow> Inl e
      | Inr o2 \<Rightarrow>
          Inr (max 0 (min 25 (o0 - 65)), max 0 (min 25 (o1 - 65)), max 0 (min 25 (o2 - 65))))))"

definition get_coordinates_from_sector :: "string \<Rightarrow> exn + sector_coords" where
  "get_coordinates_from_sector location =
     (if location = [] \<or> length location < 3 then Inr (0, 0, 0)
      else case sector_try location of
             Inl e \<Rightarrow> Inr (0, 0, 0)
           | Inr v \<Rightarrow> Inr v)"

text \<open>
  The inner \<open>try\<close> block of \<open>get_coordinates_from_subsector\<close>: the three assignments and
  the three clamps run in order, and an exception leaves the variables as they were when it
  was raised. The result is the value of \<open>(sx, sy, sz)\<close> together with the pending
  exception, if any.
\<close>

definition subsector_try :: "string \<Rightarrow> (int \<times> int \<times> int) \<times> exn option" where
  "subsector_try subsector_part =
     (case py_int_char (subsector_part ! 0) of
        Inl e \<Rightarrow> ((0, 0, 0), Some e)
      | Inr a \<Rightarrow>
     (case py_int_char (subsector_part ! 1) of
        Inl e \<Rightarrow> ((a - 1, 0, 0), Some e)
      | Inr b \<Rightarrow>
     (case py_int_char (subsector_part ! 2) of
        Inl e \<Rightarrow> ((a - 1, b - 1, 0), Some e)
      | Inr c \<Rightarrow>
          ((max 0 (min 9 (a - 1)), max 0 (min 9 (b - 1)), max 0 (min 9 (c - 1))), None))))"

definition subsector_zero :: "exn + subsector_coords" where
  "subsector_zero = Inr (0, 0, 0, 0, 0, 0)"

definition get_coordinates_from_subsector :: "string \<Rightarrow> exn + subsector_coords" where
  "get_coordinates_from_subsector location =
     (if location = [] \<or> length location < 6 then subsector_zero
      else
        let sector_part = take 3 location;
            subsector_part = take 3 (drop 3 location)
        in case get_coordinates_from_sector sector_part of
             Inl e \<Rightarrow> subsector_zero
           | Inr (x, y, z) \<Rightarrow>
               (case subsector_try subsector_part of
                  ((sx, sy, sz), None) \<Rightarrow> Inr (x, y, z, sx, sy, sz)
                | ((sx, sy, sz), Some ValueError) \<Rightarrow> Inr (x, y, z, sx, sy, sz)
                | (_, Some e) \<Rightarrow> subsector_zero))"

definition system_zero :: "exn + system_coords" where
  "system_zero = Inr (0, 0, 0, 0, 0, 0, 0)"

text \<open>The inner \<open>try\<close> block of \<open>get_coordinates_from_system\<close>, on the character at index 6.\<close>

definition system_pos_try :: "char \<Rightarrow> int \<times> exn option" where
  "system_pos_try c =
     (case py_int_char c of
        Inl e \<Rightarrow> (0, Some e)
      | Inr d \<Rightarrow> (max 0 (min 9 (d - 1)), None))"

definition get_coordinates_from_system :: "string \<Rightarrow> exn + system_coords" where
  "get_coordinates_from_system location =
     (if location = [] \<or> length location < 7 then system_zero
      else
        let subsector_part = take 6 location in
        case system_pos_try (location ! 6) of
          (system_pos, Some e) \<Rightarrow>
            (if e = ValueError then
               (case get_coordinates_from_subsector subsector_part of
                  Inl e' \<Rightarrow> system_zero
                | Inr (x, y, z, sx, sy, sz) \<Rightarrow> Inr (x, y, z, sx, sy, sz, system_pos))
             else system_zero)
        | (system_pos, None) \<Rightarrow>
            (case get_coordinates_from_subsector subsector_part of
               Inl e' \<Rightarrow> system_zero
             | Inr (x, y, z, sx, sy, sz) \<Rightarrow> Inr (x, y, z, sx, sy, sz, system_pos)))"

text \<open>
  \<open>calculate_sector_distance\<close>: the Python float is modelled as a real number;
  \<open>math.sqrt\<close> is applied to a non-negative integer and does not raise.
\<close>

definition calculate_sector_distance :: "string \<Rightarrow> string \<Rightarrow> exn + real" where
  "calculate_sector_distance sector1 sector2 =
     (if sector1 = [] \<or> sector2 = [] then Inr 0
      else
        (case get_coordinates_from_sector sector1 of
           Inl e \<Rightarrow> Inr 0
         | Inr (x1, y1, z1) \<Rightarrow>
        (case get_coordinates_from_sector sector2 of
           Inl e \<Rightarrow> Inr 0
         | Inr (x2, y2, z2) \<Rightarrow>
             (let dx = x2 - x1; dy = y2 - y1; dz = z2 - z1
              in Inr (sqrt (real_of_int (dx * dx + dy * dy + dz * dz)))))))"

definition format_location :: "string \<Rightarrow> exn + string" where
  "format_location location =
     (if location = [] then Inr ''''
      else if length location = 3 then Inr location
      else if length location = 6 then Inr (take 3 location @ ''-'' @ drop 3 location)
      else if length location = 7 then
        Inr (take 3 location @ ''-'' @ take 3 (drop 3 location) @ ''-'' @ [location ! 6])
      else if length location = 8 then
        Inr (take 3 location @ ''-'' @ take 3 (drop 3 location) @ ''-'' @ [location ! 6]
               @ ''-'' @ [location ! 7])
      else if CHR ''/'' \<in> set location then
        (let parts = py_split (CHR ''/'') location in
         if length parts = 3 then Inr (parts ! 0 @ ''-'' @ parts ! 1 @ ''-'' @ parts ! 2)
         else if length parts = 4 then
           Inr (parts ! 0 @ ''-'' @ parts ! 1 @ ''-'' @ parts ! 2 @ ''-'' @ parts ! 3)
         else Inr location)
      else Inr location)"

text \<open>
  The inverse direction of the sector encoding, \<open>chr(65 + i)\<close>, as
  src/views/slice\_map\_view.py writes the letter of an axis value.
\<close>

definition letter_of :: "int \<Rightarrow> char" where
  "letter_of i = char_of (65 + i)"

section \<open>Rows of the backing store\<close>

text \<open>
  A row read from the store is a Python dictionary from column names to values. The values
  modelled are NULL, integers and text; REAL and BLOB columns are left out. A dictionary is
  an association list, read with \<open>dict.get(key, default)\<close>.
\<close>

datatype val = VNone | VInt int | VStr string

type_synonym row = "(string \<times> val) list"

definition dict_get :: "row \<Rightarrow> string \<Rightarrow> val \<Rightarrow> val" where
  "dict_get r k d = (case map_of r k of None \<Rightarrow> d | Some v \<Rightarrow> v)"

text \<open>Python truthiness of a value.\<close>

fun truthy :: "val \<Rightarrow> bool" where
  "truthy VNone = False"
| "truthy (VInt i) = (i \<noteq> 0)"
| "truthy (VStr s) = (s \<noteq> [])"

text \<open>
  \<open>max(ids, default=0) + 1\<close> over a list of values. On integers it is the maximum plus
  one, and one for the empty list. As soon as one value is not an integer, the comparison
  inside \<open>max\<close> or the addition of one raises TypeError.
\<close>

fun ints_of :: "val list \<Rightarrow> int list option" where
  "ints_of [] = Some []"
| "ints_of (VInt i # vs) = (case ints_of vs of None \<Rightarrow> None | Some js \<Rightarrow> Some (i # js))"
| "ints_of (v # vs) = None"

fun py_max_default :: "int list \<Rightarrow> int \<Rightarrow> int" where
  "py_max_default [] d = d"
| "py_max_default (i # js) d = fold max js i"

definition sector_ids :: "row list \<Rightarrow> val list" where
  "sector_ids rows = map (\<lambda>sector. dict_get sector ''id'' (VInt 0)) rows"

definition next_sector_id :: "row list \<Rightarrow> exn + int" where
  "next_sector_id rows =
     (case ints_of (sector_ids rows) of
        None \<Rightarrow> Inl TypeError
      | Some ids \<Rightarrow> Inr (py_max_default ids 0 + 1))"

section \<open>The data loader (src/utils/data\_loader.py)\<close>

text \<open>
  The backing store, as the loader observes it: whether the file exists, whether
  \<open>sqlite3.connect\<close> succeeds, and for each query either its rows or \<open>None\<close> when it
  raises.
\<close>

record database =
  path_exists :: bool
  connect_ok :: bool
  table_names :: "string list option"
  sectors_table :: "row list option"
  subsectors_table :: "row list option"
  systems_table :: "row list option"
  planets_table :: "row list option"

datatype connection = Open | Closed

record data_loader =
  sectors :: "row list"
  subsectors :: "row list"
  systems :: "row list"
  planets :: "row list"
  conn :: "connection option"
  sector_codes :: "val set"
  sector_by_code :: "val \<rightharpoonup> val"
  subsector_by_code :: "val \<rightharpoonup> val"
  system_by_code :: "val \<rightharpoonup> val"

definition DataLoader_init :: data_loader where
  "DataLoader_init =
     \<lparr> sectors = [], subsectors = [], systems = [], planets = [], conn = None,
       sector_codes = {}, sector_by_code = Map.empty, subsector_by_code = Map.empty,
       system_by_code = Map.empty \<rparr>"

definition get_table_list :: "database \<Rightarrow> string list" where
  "get_table_list db = (case table_names db of None \<Rightarrow> [] | Some names \<Rightarrow> names)"

text \<open>
  The dictionary comprehension \<open>{r.get('location'): r.get('id') for r in rows if
  r.get('location')}\<close>: a later row replaces an earlier one with the same key.
\<close>

definition by_code :: "row list \<Rightarrow> (val \<rightharpoonup> val)" where
  "by_code rows =
     map_of (rev (map (\<lambda>r. (dict_get r ''location'' VNone, dict_get r ''id'' VNone))
                      (filter (\<lambda>r. truthy (dict_get r ''location'' VNone)) rows)))"

definition load_sectors :: "database \<Rightarrow> data_loader \<Rightarrow> data_loader" where
  "load_sectors db st =
     (case sectors_table db of
        None \<Rightarrow> st\<lparr>sectors := []\<rparr>
      | Some rows \<Rightarrow>
          st\<lparr>sectors := rows,
             sector_codes :=
               set (map (\<lambda>sector. dict_get sector ''location'' (VStr []))
                        (filter (\<lambda>sector. truthy (dict_get sector ''location'' VNone)) rows)),
             sector_by_code := by_code rows\<rparr>)"

definition load_subsectors :: "database \<Rightarrow> data_loader \<Rightarrow> data_loader" where
  "load_subsectors db st =
     (case subsectors_table db of
        None \<Rightarrow> st\<lparr>subsectors := []\<rparr>
      | Some rows \<Rightarrow> st\<lparr>subsectors := rows, subsector_by_code := by_code rows\<rparr>)"

definition load_systems :: "database \<Rightarrow> data_loader \<Rightarrow> data_loader" where
  "load_systems db st =
     (case systems_table db of
        None \<Rightarrow> st\<lparr>systems := []\<rparr>
      | Some rows \<Rightarrow> st\<lparr>systems := rows, system_by_code := by_code rows\<rparr>)"

definition load_planets :: "database \<Rightarrow> data_loader \<Rightarrow> data_loader" where
  "load_planets db st =
     (case planets_table db of
        None \<Rightarrow> st\<lparr>planets := []\<rparr>
      | Some rows \<Rightarrow> st\<lparr>planets := rows\<rparr>)"

text \<open>
  The record appended for a synthesized sector; \<open>note\<close> is the text of its note and
  \<open>current_date\<close> the formatted reading of the clock.
\<close>

definition stub_sector :: "int \<Rightarrow> string \<Rightarrow> string \<Rightarrow> string \<Rightarrow> row" where
  "stub_sector next_id sector_code note current_date =
     [(''id'', VInt next_id), (''location'', VStr sector_code),
      (''nav'', VStr ''Unexplored Sector''), (''note'', VStr note),
      (''date'', VStr current_date)]"

definition append_sector :: "row \<Rightarrow> string \<Rightarrow> int \<Rightarrow> data_loader \<Rightarrow> data_loader" where
  "append_sector stub sector_code next_id st =
     st\<lparr>sectors := sectors st @ [stub],
        sector_codes := insert (VStr sector_code) (sector_codes st),
        sector_by_code := (sector_by_code st)(VStr sector_code \<mapsto> VInt next_id)\<rparr>"

definition create_specific_sector :: "string \<Rightarrow> string \<Rightarrow> data_loader \<Rightarrow> data_loader" where
  "create_specific_sector current_date sector_code st =
     (if VStr sector_code \<in> sector_codes st then st
      else case next_sector_id (sectors st) of
             Inl e \<Rightarrow> st
           | Inr next_id \<Rightarrow>
               append_sector
                 (stub_sector next_id sector_code ''Manually created stub sector'' current_date)
                 sector_code next_id st)"

text \<open>
  \<open>missing_sectors.add(code)\<close> on a set kept as a list without duplicates, in the order
  of first insertion.
\<close>

definition set_add :: "string \<Rightarrow> string list \<Rightarrow> string list" where
  "set_add code missing = (if code \<in> set missing then missing else missing @ [code])"

text \<open>
  The sector code read off a planet location: the part before the first \<open>/\<close> when the
  location has one, its first three characters otherwise.
\<close>

definition planet_sector_code :: "string \<Rightarrow> string" where
  "planet_sector_code location =
     (if CHR ''/'' \<in> set location then hd (py_split (CHR ''/'') location)
      else take 3 location)"

text \<open>
  One iteration of the loops of \<open>_create_stub_sectors\<close>. The test
  \<open>location and len(location) >= 3\<close> stands outside the inner \<open>try\<close>: \<open>len\<close> of a
  non-zero number raises TypeError, which leaves the loop. Nothing inside the inner
  \<open>try\<close> raises on a string.
\<close>

definition check_location ::
  "(string \<Rightarrow> string) \<Rightarrow> val set \<Rightarrow> row \<Rightarrow> string list \<Rightarrow> exn + string list" where
  "check_location code_of codes entity missing =
     (case dict_get entity ''location'' (VStr []) of
        VNone \<Rightarrow> Inr missing
      | VInt i \<Rightarrow> (if i = 0 then Inr missing else Inl TypeError)
      | VStr location \<Rightarrow>
          (if location \<noteq> [] \<and> 3 \<le> length location then
             (let sector_code = code_of location in
              if sector_code \<noteq> [] \<and> VStr sector_code \<notin> codes
              then Inr (set_add sector_code missing)
              else Inr missing)
           else Inr missing))"

fun check_locations ::
  "(string \<Rightarrow> string) \<Rightarrow> val set \<Rightarrow> row list \<Rightarrow> string list \<Rightarrow> exn + string list" where
  "check_locations code_of codes [] missing = Inr missing"
| "check_locations code_of codes (entity # rest) missing =
     (case check_location code_of codes entity missing of
        Inl e \<Rightarrow> Inl e
      | Inr missing' \<Rightarrow> check_locations code_of codes rest missing')"

text \<open>The loop that creates the stubs, with the counter \<open>next_id\<close>.\<close>

fun add_stubs :: "string \<Rightarrow> string list \<Rightarrow> int \<Rightarrow> data_loader \<Rightarrow> data_loader" where
  "add_stubs current_date [] next_id st = st"
| "add_stubs current_date (sector_code # rest) next_id st =
     add_stubs current_date rest (next_id + 1)
       (append_sector
          (stub_sector next_id sector_code ''Automatically generated stub sector'' current_date)
          sector_code next_id st)"

text \<open>
  \<open>_create_stub_sectors\<close>. The planets are scanned first (with the \<open>/\<close> form), then the
  systems, then the subsectors. Python does not fix the order in which the set
  \<open>missing_sectors\<close> is iterated: \<open>order\<close> is that order, applied to the codes in the
  order of their insertion. An exception anywhere leaves the loader as it was, since the
  first change to it comes after the last statement that can raise.
\<close>

definition create_stub_sectors ::
  "(string list \<Rightarrow> string list) \<Rightarrow> string \<Rightarrow> data_loader \<Rightarrow> data_loader" where
  "create_stub_sectors order current_date st =
     (case check_locations planet_sector_code (sector_codes st) (planets st) [] of
        Inl e \<Rightarrow> st
      | Inr m1 \<Rightarrow>
     (case check_locations (take 3) (sector_codes st) (systems st) m1 of
        Inl e \<Rightarrow> st
      | Inr m2 \<Rightarrow>
     (case check_locations (take 3) (sector_codes st) (subsectors st) m2 of
        Inl e \<Rightarrow> st
      | Inr missing_sectors \<Rightarrow>
     (case next_sector_id (sectors st) of
        Inl e \<Rightarrow> st
      | Inr next_id \<Rightarrow> add_stubs current_date (order missing_sectors) next_id st))))"

text \<open>The four guarded table loads of \<open>load\<close>, in the order of the source.\<close>

definition load_tables :: "database \<Rightarrow> data_loader \<Rightarrow> data_loader" where
  "load_tables db st =
     (let tables = get_table_list db;
          st1 = (if ''sectors'' \<in> set tables then load_sectors db st else st);
          st2 = (if ''subsectors'' \<in> set tables then load_subsectors db st1 else st1);
          st3 = (if ''systems'' \<in> set tables then load_systems db st2 else st2)
      in if ''planets'' \<in> set tables then load_planets db st3 else st3)"

text \<open>The stub pass followed by the check for the sector ANM.\<close>

definition repair_sectors ::
  "(string list \<Rightarrow> string list) \<Rightarrow> string \<Rightarrow> string \<Rightarrow> data_loader \<Rightarrow> data_loader" where
  "repair_sectors order date1 date2 st =
     (let st' = create_stub_sectors order date1 st;
          anm_exists = list_ex (\<lambda>sector. dict_get sector ''location'' VNone = VStr ''ANM'')
                         (sectors st')
      in if \<not> anm_exists then create_specific_sector date2 ''ANM'' st' else st')"

text \<open>
  \<open>load\<close>: FileNotFoundError is raised before the \<open>try\<close> and leaves the function. Inside
  the \<open>try\<close> only \<open>sqlite3.connect\<close> can raise (every later step catches its own
  exceptions); the handler then empties the four collections. \<open>date1\<close> and \<open>date2\<close>
  are the two readings of the clock.
\<close>

definition load ::
  "(string list \<Rightarrow> string list) \<Rightarrow> string \<Rightarrow> string \<Rightarrow> database \<Rightarrow> data_loader
     \<Rightarrow> exn + data_loader" where
  "load order date1 date2 db st =
     (if \<not> path_exists db then Inl FileNotFoundError
      else if \<not> connect_ok db then
        Inr (st\<lparr>sectors := [], subsectors := [], systems := [], planets := []\<rparr>)
      else
        Inr (repair_sectors order date1 date2 (load_tables db (st\<lparr>conn := Some Open\<rparr>))))"

definition close :: "data_loader \<Rightarrow> data_loader" where
  "close st = (case conn st of None \<Rightarrow> st | Some c \<Rightarrow> st\<lparr>conn := None\<rparr>)"

section \<open>The ownership cache (src/app.py)\<close>

text \<open>Lines 237 to 247: the parent codes of a fixed-width location, as the source nests them.\<close>

definition add_parent_codes :: "string \<Rightarrow> string set \<Rightarrow> string set" where
  "add_parent_codes location cache =
     (if 7 \<le> length location then
        (let cache1 = insert (take 7 location) cache in
         if 6 \<le> length location then
           (let cache2 = insert (take 6 location) cache1 in
            if 3 \<le> length location then insert (take 3 location) cache2 else cache2)
         else cache1)
      else cache)"

text \<open>Lines 250 to 261: the parent codes of a location in the \<open>/\<close> form.\<close>

definition add_slash_codes :: "string \<Rightarrow> string set \<Rightarrow> string set" where
  "add_slash_codes location cache =
     (if CHR ''/'' \<in> set location then
        (let parts = py_split (CHR ''/'') location in
         if 1 \<le> length parts then
           (let cache1 = insert (parts ! 0) cache in
            if 2 \<le> length parts then
              (let cache2 = insert (parts ! 0 @ parts ! 1) cache1 in
               if 3 \<le> length parts then insert (parts ! 0 @ parts ! 1 @ parts ! 2) cache2
               else cache2)
            else cache1)
         else cache)
      else cache)"

text \<open>
  One iteration of the loop over the planets. \<open>owner.upper()\<close> raises AttributeError on a
  non-zero number; a location that is a non-zero number is added and then raises
  TypeError at \<open>len\<close>. Both leave the loop for the handler, which empties the cache.
\<close>

definition wyvern_step :: "row \<Rightarrow> string set \<Rightarrow> exn + string set" where
  "wyvern_step planet cache =
     (if planet = [] then Inr cache
      else
        let owner = dict_get planet ''owner'' (VStr []);
            location = dict_get planet ''location'' (VStr [])
        in case owner of
             VNone \<Rightarrow> Inr cache
           | VInt i \<Rightarrow> (if i = 0 then Inr cache else Inl AttributeError)
           | VStr owner_text \<Rightarrow>
               (if owner_text \<noteq> [] \<and> py_contains ''WYVERN SUPREMACY'' (py_upper owner_text)
                   \<and> truthy location
                then (case location of
                        VStr code \<Rightarrow>
                          Inr (add_slash_codes code (add_parent_codes code (insert code cache)))
                      | _ \<Rightarrow> Inl TypeError)
                else Inr cache))"

fun wyvern_loop :: "row list \<Rightarrow> string set \<Rightarrow> exn + string set" where
  "wyvern_loop [] cache = Inr cache"
| "wyvern_loop (planet # rest) cache =
     (case wyvern_step planet cache of
        Inl e \<Rightarrow> Inl e
      | Inr cache' \<Rightarrow> wyvern_loop rest cache')"

definition build_wyvern_locations_cache :: "row list \<Rightarrow> string set" where
  "build_wyvern_locations_cache planet_rows =
     (case wyvern_loop planet_rows {} of Inl e \<Rightarrow> {} | Inr cache \<Rightarrow> cache)"

definition is_wyvern_location :: "string set \<Rightarrow> val \<Rightarrow> bool" where
  "is_wyvern_location wyvern_locations location_code =
     (case location_code of
        VStr code \<Rightarrow> code \<noteq> [] \<and> code \<in> wyvern_locations
      | _ \<Rightarrow> False)"

section \<open>Notions used to state the properties of the loader\<close>

text \<open>
  The records that the stub loop appends for a list of codes, from a first id on.
\<close>

fun stubs_for :: "string \<Rightarrow> int \<Rightarrow> string list \<Rightarrow> row list" where
  "stubs_for current_date next_id [] = []"
| "stubs_for current_date next_id (sector_code # rest) =
     stub_sector next_id sector_code ''Automatically generated stub sector'' current_date
       # stubs_for current_date (next_id + 1) rest"

text \<open>
  No location of the rows is a non-zero number: under this condition the scan loops of the
  stub pass raise nothing. Every id of the rows is an integer: under this condition the
  next id can be computed. A store is well typed when its sector rows have integer ids and
  the rows of its three other tables have no numeric location.
\<close>

definition text_locations :: "row list \<Rightarrow> bool" where
  "text_locations rows =
     list_all (\<lambda>r. case dict_get r ''location'' (VStr []) of VInt i \<Rightarrow> i = 0 | _ \<Rightarrow> True) rows"

definition integer_ids :: "row list \<Rightarrow> bool" where
  "integer_ids rows = (ints_of (sector_ids rows) \<noteq> None)"

definition well_typed :: "database \<Rightarrow> bool" where
  "well_typed db =
     ((case sectors_table db of None \<Rightarrow> True | Some rows \<Rightarrow> integer_ids rows) \<and>
      (case subsectors_table db of None \<Rightarrow> True | Some rows \<Rightarrow> text_locations rows) \<and>
      (case systems_table db of None \<Rightarrow> True | Some rows \<Rightarrow> text_locations rows) \<and>
      (case planets_table db of None \<Rightarrow> True | Some rows \<Rightarrow> text_locations rows))"

text \<open>The sectors collection holds a record whose location is the code.\<close>

definition has_sector :: "data_loader \<Rightarrow> string \<Rightarrow> bool" where
  "has_sector st code =
     list_ex (\<lambda>sector. dict_get sector ''location'' VNone = VStr code) (sectors st)"

text \<open>
  The invariant between the two fields that track the sectors: every code in
  \<open>sector_codes\<close> is the location of a record in \<open>sectors\<close>.
\<close>

definition codes_ok :: "data_loader \<Rightarrow> bool" where
  "codes_ok st =
     (\<forall>c \<in> sector_codes st. \<exists>sec \<in> set (sectors st). dict_get sec ''location'' VNone = c)"

text \<open>The rows a table load leaves in its collection: none when the query raises.\<close>

definition rows_of :: "row list option \<Rightarrow> row list" where
  "rows_of table = (case table of None \<Rightarrow> [] | Some rows \<Rightarrow> rows)"

text \<open>
  The sector codes that the locations of some rows refer to: for each location of at least
  three characters, its code under \<open>code_of\<close> when that is not empty.
\<close>

definition location_refs :: "(string \<Rightarrow> string) \<Rightarrow> row \<Rightarrow> string list" where
  "location_refs code_of entity =
     (case dict_get entity ''location'' (VStr []) of
        VStr location \<Rightarrow>
          (if 3 \<le> length location \<and> code_of location \<noteq> [] then [code_of location] else [])
      | _ \<Rightarrow> [])"

definition sector_refs :: "(string \<Rightarrow> string) \<Rightarrow> row list \<Rightarrow> string list" where
  "sector_refs code_of rows = concat (map (location_refs code_of) rows)"

text \<open>
  Three stores on which the loader is evaluated: one with a sector and two planets of
  sectors that have no record, one whose four queries all raise, and one to which no
  connection can be opened.
\<close>

definition example_db :: database where
  "example_db =
     \<lparr> path_exists = True, connect_ok = True,
       table_names = Some [''sectors'', ''planets''],
       sectors_table = Some [[(''id'', VInt 5), (''location'', VStr ''AAA'')]],
       subsectors_table = None,
       systems_table = None,
       planets_table =
         Some [[(''id'', VInt 1), (''location'', VStr ''BBB11111'')],
               [(''id'', VInt 2), (''location'', VStr ''CCC/222/1/1'')]] \<rparr>"

definition failing_db :: database where
  "failing_db =
     \<lparr> path_exists = True, connect_ok = True,
       table_names = Some [''sectors'', ''subsectors'', ''systems'', ''planets''],
       sectors_table = None, subsectors_table = None, systems_table = None,
       planets_table = None \<rparr>"

definition unreachable_db :: database where
  "unreachable_db =
     \<lparr> path_exists = True, connect_ok = False,
       table_names = None,
       sectors_table = None, subsectors_table = None, systems_table = None,
       planets_table = None \<rparr>"

definition example_date :: string where
  "example_date = ''2026-01-01T00:00:00.000000Z''"

text \<open>
  The conditions on the loader's own state under which a call of \<open>load\<close> on a loader
  that was used before behaves like one on a fresh loader. \<open>sectors_tracked\<close>: after
  the table loads, \<open>sector_codes\<close> tracks the sector records. That is so when the
  sectors table is listed and its query succeeds (both fields are then set anew), or when
  nothing was tracked before; when the table is not listed the loader keeps its sectors,
  which must then be tracked already and carry integer ids. \<open>kept_rows_typed\<close>: the
  collections that are kept because their table is not listed have no numeric location.
  Both hold of the freshly constructed loader, for every store.
\<close>

definition sectors_tracked :: "database \<Rightarrow> data_loader \<Rightarrow> bool" where
  "sectors_tracked db st =
     (if ''sectors'' \<in> set (get_table_list db)
      then sectors_table db \<noteq> None \<or> sector_codes st = {}
      else codes_ok st \<and> integer_ids (sectors st))"

definition kept_rows_typed :: "database \<Rightarrow> data_loader \<Rightarrow> bool" where
  "kept_rows_typed db st =
     ((''subsectors'' \<in> set (get_table_list db) \<or> text_locations (subsectors st)) \<and>
      (''systems'' \<in> set (get_table_list db) \<or> text_locations (systems st)) \<and>
      (''planets'' \<in> set (get_table_list db) \<or> text_locations (planets st)))"

text \<open>
  Three more stores: one with rows in all four tables, one whose sectors query raises
  while its planets are read, and one with a planet whose location is a number.
\<close>

definition full_db :: database where
  "full_db =
     \<lparr> path_exists = True, connect_ok = True,
       table_names = Some [''sectors'', ''subsectors'', ''systems'', ''planets''],
       sectors_table = Some [[(''id'', VInt 5), (''location'', VStr ''AAA'')]],
       subsectors_table = Some [[(''id'', VInt 1), (''location'', VStr ''DDD123'')]],
       systems_table = Some [[(''id'', VInt 1), (''location'', VStr ''EEE1234'')]],
       planets_table =
         Some [[(''id'', VInt 1), (''location'', VStr ''BBB11111'')],
               [(''id'', VInt 2), (''location'', VStr ''CCC/222/1/1'')]] \<rparr>"

definition stale_db :: database where
  "stale_db =
     \<lparr> path_exists = True, connect_ok = True,
       table_names = Some [''sectors'', ''planets''],
       sectors_table = None,
       subsectors_table = None,
       systems_table = None,
       planets_table = Some [[(''id'', VInt 1), (''location'', VStr ''BBB11111'')]] \<rparr>"

definition numeric_db :: database where
  "numeric_db =
     \<lparr> path_exists = True, connect_ok = True,
       table_names = Some [''planets''],
       sectors_table = None,
       subsectors_table = None,
       systems_table = None,
       planets_table =
         Some [[(''id'', VInt 1), (''location'', VInt 7)],
               [(''id'', VInt 2), (''location'', VStr ''BBB11111'')]] \<rparr>"

text \<open>The loader after a first load of the example store.\<close>

definition loaded_once :: data_loader where
  "loaded_once = projr (load id example_date example_date example_db DataLoader_init)"

section \<open>Properties of the coordinate codec\<close>

lemma ord_upper_letter:
  assumes "c \<in> set ''ABCDEFGHIJKLMNOPQRSTUVWXYZ''"
  shows "py_ord (py_upper [c]) = Inr (int (of_char c))
         \<and> 65 \<le> int (of_char c) \<and> int (of_char c) \<le> 90"
  using assms by (auto simp: py_ord_def py_upper_def upper_char_def)

lemma letter_of_ord:
  "65 \<le> int (of_char c) \<Longrightarrow> int (of_char c) \<le> 90 \<Longrightarrow>
   letter_of (max 0 (min 25 (int (of_char c) - 65))) = c"
  by (simp add: letter_of_def)

text \<open>
  Claim C5. A sector code of three letters A to Z decodes to a triple whose three values,
  written back as letters (A for 0 up to Z for 25), give the code again.
\<close>

theorem sector_roundtrip:
  assumes len: "length code = 3"
    and letters: "\<forall>c \<in> set code. c \<in> set ''ABCDEFGHIJKLMNOPQRSTUVWXYZ''"
  shows "\<exists>x y z. get_coordinates_from_sector code = Inr (x, y, z)
           \<and> [letter_of x, letter_of y, letter_of z] = code"
proof -
  from len obtain a b c where code: "code = [a, b, c]"
    by (cases code; cases "tl code"; cases "tl (tl code)") auto
  from letters code have la: "a \<in> set ''ABCDEFGHIJKLMNOPQRSTUVWXYZ''"
    and lb: "b \<in> set ''ABCDEFGHIJKLMNOPQRSTUVWXYZ''"
    and lc: "c \<in> set ''ABCDEFGHIJKLMNOPQRSTUVWXYZ''" by simp_all
  note A = ord_upper_letter[OF la] and B = ord_upper_letter[OF lb]
    and C = ord_upper_letter[OF lc]
  have "get_coordinates_from_sector code =
      Inr (max 0 (min 25 (int (of_char a) - 65)), max 0 (min 25 (int (of_char b) - 65)),
           max 0 (min 25 (int (of_char c) - 65)))"
    using A B C by (simp add: code get_coordinates_from_sector_def sector_try_def)
  moreover have "letter_of (max 0 (min 25 (int (of_char a) - 65))) = a"
    using A by (intro letter_of_ord) auto
  moreover have "letter_of (max 0 (min 25 (int (of_char b) - 65))) = b"
    using B by (intro letter_of_ord) auto
  moreover have "letter_of (max 0 (min 25 (int (of_char c) - 65))) = c"
    using C by (intro letter_of_ord) auto
  ultimately show ?thesis by (simp add: code)
qed

theorem sector_roundtrip_witness:
  "length ''MXB'' = 3
   \<and> (\<exists>x y z. get_coordinates_from_sector ''MXB'' = Inr (x, y, z)
          \<and> [letter_of x, letter_of y, letter_of z] = ''MXB'')"
proof -
  have h1: "length ''MXB'' = 3" by simp
  have h2: "\<forall>c \<in> set ''MXB''. c \<in> set ''ABCDEFGHIJKLMNOPQRSTUVWXYZ''" by simp
  from sector_roundtrip [OF h1 h2] h1 show ?thesis by blast
qed

lemma sector_decode_example: "get_coordinates_from_sector ''MXB'' = Inr (12, 23, 1)"
  by (simp add: get_coordinates_from_sector_def sector_try_def py_ord_def py_upper_def
      upper_char_def)

text \<open>
  The sharp s is the one character whose upper-case form has two characters: \<open>ord\<close>
  raises on it, and the handler returns the zero triple.
\<close>

lemma sector_sharp_s: "get_coordinates_from_sector [CHR 0xDF, CHR ''A'', CHR ''B''] = Inr (0, 0, 0)"
  by (simp add: get_coordinates_from_sector_def sector_try_def py_ord_def py_upper_def
      upper_char_def)

subsection \<open>No exception leaves a codec function\<close>

lemma sector_returns: "\<exists>v. get_coordinates_from_sector s = Inr v"
  by (simp add: get_coordinates_from_sector_def split: sum.split)

lemma subsector_returns: "\<exists>v. get_coordinates_from_subsector s = Inr v"
  by (auto simp: get_coordinates_from_subsector_def subsector_zero_def Let_def
           split: sum.split prod.split option.split exn.split)

lemma system_returns: "\<exists>v. get_coordinates_from_system s = Inr v"
  by (auto simp: get_coordinates_from_system_def system_zero_def Let_def
           split: sum.split prod.split option.split)

lemma distance_returns: "\<exists>v. calculate_sector_distance a b = Inr v"
  by (auto simp: calculate_sector_distance_def Let_def split: sum.split prod.split)

lemma format_returns: "\<exists>v. format_location s = Inr v"
  by (auto simp: format_location_def Let_def)

lemma short_input_defaults:
  "length s < 3 \<Longrightarrow> get_coordinates_from_sector s = Inr (0, 0, 0)"
  "length s < 6 \<Longrightarrow> get_coordinates_from_subsector s = Inr (0, 0, 0, 0, 0, 0)"
  "length s < 7 \<Longrightarrow> get_coordinates_from_system s = Inr (0, 0, 0, 0, 0, 0, 0)"
  "a = [] \<or> b = [] \<Longrightarrow> calculate_sector_distance a b = Inr 0"
  "format_location [] = Inr []"
  by (auto simp: get_coordinates_from_sector_def get_coordinates_from_subsector_def
      get_coordinates_from_system_def calculate_sector_distance_def format_location_def
      subsector_zero_def system_zero_def)

lemma sector_range:
  assumes "get_coordinates_from_sector s = Inr (x, y, z)"
  shows "0 \<le> x \<and> x \<le> 25 \<and> 0 \<le> y \<and> y \<le> 25 \<and> 0 \<le> z \<and> z \<le> 25"
  using assms
  by (auto simp: get_coordinates_from_sector_def sector_try_def
         split: sum.splits prod.splits option.splits if_splits)

lemma system_pos_range:
  assumes "get_coordinates_from_system s = Inr (x, y, z, sx, sy, sz, p)"
  shows "0 \<le> p \<and> p \<le> 8"
  using assms
  by (auto simp: get_coordinates_from_system_def system_zero_def Let_def system_pos_try_def
         py_int_char_def
         split: sum.splits prod.splits option.splits if_splits)

lemma subsector_scenario: "get_coordinates_from_subsector ''MMM222'' = Inr (12, 12, 12, 1, 1, 1)"
  by (simp add: get_coordinates_from_subsector_def subsector_try_def py_int_char_def
      get_coordinates_from_sector_def sector_try_def py_ord_def py_upper_def upper_char_def
      subsector_zero_def)

text \<open>
  Claim C6 says that the subsector offsets lie between 0 and 8 for every input. The clamp
  of \<open>get_coordinates_from_subsector\<close> stands after the three conversions, inside the same
  \<open>try\<close>: when the second character is not a digit, the first offset keeps its unclamped
  value. For the code \<open>MMM0x1\<close> the offset \<open>sx\<close> is \<open>-1\<close>.
\<close>

theorem subsector_offset_unclamped:
  "get_coordinates_from_subsector ''MMM0x1'' = Inr (12, 12, 12, - 1, 0, 0)"
  by (simp add: get_coordinates_from_subsector_def subsector_try_def py_int_char_def
      get_coordinates_from_sector_def sector_try_def py_ord_def py_upper_def upper_char_def
      subsector_zero_def)

text \<open>
  Claim C7 says that no exception leaves a codec function (the lemmas above) and that a
  malformed input gives the zero default. For the code \<open>MMM5x1\<close>, whose offset part holds
  a character that is not a digit, the offsets returned are \<open>(4, 0, 0)\<close> and not the
  default \<open>(0, 0, 0)\<close>.
\<close>

theorem subsector_malformed_not_default:
  "get_coordinates_from_subsector ''MMM5x1'' = Inr (12, 12, 12, 4, 0, 0)"
  by (simp add: get_coordinates_from_subsector_def subsector_try_def py_int_char_def
      get_coordinates_from_sector_def sector_try_def py_ord_def py_upper_def upper_char_def
      subsector_zero_def)

text \<open>
  Claim C10. A string of length 6, 7 or 8 is cut at fixed widths whether or not it holds a
  \<open>/\<close> (and one of length 3 is returned as it is); the split at \<open>/\<close> is used only for
  the other lengths, for three or four parts; every other string is returned unchanged.
\<close>

theorem format_location_precedence:
  "(length s = 3 \<longrightarrow> format_location s = Inr s) \<and>
   (length s = 6 \<longrightarrow> format_location s = Inr (take 3 s @ ''-'' @ drop 3 s)) \<and>
   (length s = 7 \<longrightarrow>
      format_location s = Inr (take 3 s @ ''-'' @ take 3 (drop 3 s) @ ''-'' @ [s ! 6])) \<and>
   (length s = 8 \<longrightarrow>
      format_location s =
        Inr (take 3 s @ ''-'' @ take 3 (drop 3 s) @ ''-'' @ [s ! 6] @ ''-'' @ [s ! 7])) \<and>
   (length s \<notin> {3, 6, 7, 8} \<and> CHR ''/'' \<in> set s \<and> length (py_split (CHR ''/'') s) = 3 \<longrightarrow>
      format_location s =
        Inr (py_split (CHR ''/'') s ! 0 @ ''-'' @ py_split (CHR ''/'') s ! 1 @ ''-''
               @ py_split (CHR ''/'') s ! 2)) \<and>
   (length s \<notin> {3, 6, 7, 8} \<and> CHR ''/'' \<in> set s \<and> length (py_split (CHR ''/'') s) = 4 \<longrightarrow>
      format_location s =
        Inr (py_split (CHR ''/'') s ! 0 @ ''-'' @ py_split (CHR ''/'') s ! 1 @ ''-''
               @ py_split (CHR ''/'') s ! 2 @ ''-'' @ py_split (CHR ''/'') s ! 3)) \<and>
   (length s \<notin> {3, 6, 7, 8} \<and>
      (CHR ''/'' \<notin> set s \<or> length (py_split (CHR ''/'') s) \<notin> {3, 4}) \<longrightarrow>
      format_location s = Inr s)"
  by (auto simp: format_location_def Let_def)

theorem format_location_precedence_witness:
  "format_location ''MMM/22'' = Inr ''MMM-/22''
   \<and> format_location ''AB/C/D/'' = Inr ''AB/-C/D-/''
   \<and> format_location ''AB/C/D/E'' = Inr ''AB/-C/D-/-E''
   \<and> format_location ''A/B/C'' = Inr ''A-B-C''
   \<and> format_location ''MMM/222/1/1'' = Inr ''MMM-222-1-1''
   \<and> format_location ''AB/C'' = Inr ''AB/C''
   \<and> format_location ''ABCD'' = Inr ''ABCD''"
  using format_location_precedence [of "''MMM/22''"]
    format_location_precedence [of "''AB/C/D/''"]
    format_location_precedence [of "''AB/C/D/E''"]
    format_location_precedence [of "''A/B/C''"]
    format_location_precedence [of "''MMM/222/1/1''"]
    format_location_precedence [of "''AB/C''"]
    format_location_precedence [of "''ABCD''"]
  by simp

section \<open>Properties of the ownership cache\<close>

lemma marker_found: "py_contains ''WYVERN SUPREMACY'' (py_upper ''Wyvern Supremacy Fleet'')"
  by code_simp

text \<open>
  Claim C2 says that the sector prefix of an owned planet is added whenever its code has
  at least three characters, and the subsector prefix from six characters on. In
  \<open>build_wyvern_locations_cache\<close> the tests for six and for three characters are nested
  inside the test for seven: for the owned planet at \<open>MMM222\<close> only the code itself is
  added, and the sector \<open>MMM\<close> is not in the cache.
\<close>

theorem short_code_parents_not_added:
  "build_wyvern_locations_cache
     [[(''id'', VInt 1), (''location'', VStr ''MMM222''),
       (''owner'', VStr ''Wyvern Supremacy Fleet'')]] = {''MMM222''}
   \<and> \<not> is_wyvern_location
         (build_wyvern_locations_cache
            [[(''id'', VInt 1), (''location'', VStr ''MMM222''),
              (''owner'', VStr ''Wyvern Supremacy Fleet'')]])
         (VStr ''MMM'')"
  by (simp add: build_wyvern_locations_cache_def wyvern_step_def dict_get_def marker_found
        add_parent_codes_def add_slash_codes_def is_wyvern_location_def)

text \<open>
  Claim C3, as amended. Both encodings put the sector \<open>MMM\<close> into the cache. The
  fixed-width code \<open>MMM2221\<close> adds the subsector \<open>MMM222\<close>; the code \<open>MMM/2/2/1\<close> adds
  the concatenations \<open>MMM2\<close> and \<open>MMM22\<close> of its parts (and the fixed-width prefixes
  \<open>MMM/2/2\<close> and \<open>MMM/2/\<close>), and not \<open>MMM222\<close>.
\<close>

theorem slash_and_fixed_width_caches:
  "build_wyvern_locations_cache
     [[(''location'', VStr ''MMM/2/2/1''), (''owner'', VStr ''Wyvern Supremacy Fleet'')]]
     = {''MMM/2/2/1'', ''MMM/2/2'', ''MMM/2/'', ''MMM'', ''MMM2'', ''MMM22''}
   \<and> build_wyvern_locations_cache
       [[(''location'', VStr ''MMM2221''), (''owner'', VStr ''Wyvern Supremacy Fleet'')]]
     = {''MMM2221'', ''MMM222'', ''MMM''}"
  by (auto simp add: build_wyvern_locations_cache_def wyvern_step_def dict_get_def marker_found
        add_parent_codes_def add_slash_codes_def Let_def)

lemma slash_cache_value:
  "build_wyvern_locations_cache
     [[(''location'', VStr ''MMM/2/2/1''), (''owner'', VStr ''Wyvern Supremacy Fleet'')]]
     = {''MMM/2/2/1'', ''MMM/2/2'', ''MMM/2/'', ''MMM'', ''MMM2'', ''MMM22''}"
  by (auto simp add: build_wyvern_locations_cache_def wyvern_step_def dict_get_def marker_found
        add_parent_codes_def add_slash_codes_def Let_def)

theorem slash_code_subsector_missing:
  "''MMM222'' \<notin> build_wyvern_locations_cache
     [[(''location'', VStr ''MMM/2/2/1''), (''owner'', VStr ''Wyvern Supremacy Fleet'')]]"
  by (simp add: slash_cache_value)

section \<open>Properties of the data loader\<close>

subsection \<open>Auxiliary facts about the loading steps\<close>

lemma add_stubs_sectors:
  "sectors (add_stubs d cs n st) = sectors st @ stubs_for d n cs"
  by (induction cs arbitrary: n st) (simp_all add: append_sector_def)

lemma add_stubs_codes:
  "sector_codes (add_stubs d cs n st) = sector_codes st \<union> VStr ` set cs"
  by (induction cs arbitrary: n st) (auto simp: append_sector_def)

lemma add_stubs_frame:
  "subsectors (add_stubs d cs n st) = subsectors st"
  "systems (add_stubs d cs n st) = systems st"
  "planets (add_stubs d cs n st) = planets st"
  "conn (add_stubs d cs n st) = conn st"
  by (induction cs arbitrary: n st) (simp_all add: append_sector_def)

lemma stubs_for_ids:
  "sector_ids (stubs_for d n cs) = map (\<lambda>k. VInt (n + int k)) [0..<length cs]"
proof (induction cs arbitrary: n)
  case Nil
  then show ?case by (simp add: sector_ids_def)
next
  case (Cons c cs)
  have "sector_ids (stubs_for d n (c # cs)) = VInt n # sector_ids (stubs_for d (n + 1) cs)"
    by (simp add: sector_ids_def stub_sector_def dict_get_def)
  also have "\<dots> = VInt n # map (\<lambda>k. VInt (n + 1 + int k)) [0..<length cs]"
    by (simp add: Cons.IH)
  also have "\<dots> = map (\<lambda>k. VInt (n + int k)) [0..<length (c # cs)]"
    by (simp add: map_upt_Suc add.assoc del: upt_Suc)
  finally show ?case .
qed

lemma stubs_for_locations:
  "map (\<lambda>r. dict_get r ''location'' VNone) (stubs_for d n cs) = map VStr cs"
  by (induction cs arbitrary: n) (simp_all add: stub_sector_def dict_get_def)

lemma stubs_for_length: "length (stubs_for d n cs) = length cs"
  by (induction cs arbitrary: n) simp_all

lemma create_stub_sectors_frame:
  "subsectors (create_stub_sectors order d st) = subsectors st"
  "systems (create_stub_sectors order d st) = systems st"
  "planets (create_stub_sectors order d st) = planets st"
  "conn (create_stub_sectors order d st) = conn st"
  by (simp_all add: create_stub_sectors_def add_stubs_frame split: sum.split)

lemma create_specific_sector_frame:
  "subsectors (create_specific_sector d c st) = subsectors st"
  "systems (create_specific_sector d c st) = systems st"
  "planets (create_specific_sector d c st) = planets st"
  "conn (create_specific_sector d c st) = conn st"
  by (simp_all add: create_specific_sector_def append_sector_def split: sum.split)

lemma repair_sectors_frame:
  "subsectors (repair_sectors order d1 d2 st) = subsectors st"
  "systems (repair_sectors order d1 d2 st) = systems st"
  "planets (repair_sectors order d1 d2 st) = planets st"
  "conn (repair_sectors order d1 d2 st) = conn st"
  by (simp_all add: repair_sectors_def Let_def create_specific_sector_frame
        create_stub_sectors_frame)

lemma load_tables_conn: "conn (load_tables db st) = conn st"
  by (simp add: load_tables_def Let_def load_sectors_def load_subsectors_def load_systems_def
        load_planets_def split: option.split)

lemma ints_of_Some: "ints_of vs = Some ids \<Longrightarrow> vs = map VInt ids"
proof (induction vs arbitrary: ids)
  case Nil
  then show ?case by simp
next
  case (Cons v vs)
  show ?case
  proof (cases v)
    case VNone
    with Cons.prems show ?thesis by simp
  next
    case (VInt i)
    with Cons.prems obtain js where js: "ints_of vs = Some js" and ids: "ids = i # js"
      by (auto split: option.splits)
    from Cons.IH[OF js] ids VInt show ?thesis by simp
  next
    case (VStr s)
    with Cons.prems show ?thesis by simp
  qed
qed

lemma ints_of_map: "ints_of (map VInt ids) = Some ids"
  by (induction ids) simp_all

lemma ints_of_append:
  "ints_of vs = Some ids \<Longrightarrow> ints_of ws = Some js \<Longrightarrow> ints_of (vs @ ws) = Some (ids @ js)"
  by (drule ints_of_Some, drule ints_of_Some) (simp add: ints_of_map flip: map_append)

lemma py_max_default_Max:
  "py_max_default ids d = (if ids = [] then d else Max (set ids))"
proof (cases ids)
  case Nil
  then show ?thesis by simp
next
  case (Cons i js)
  then show ?thesis using Max.set_eq_fold [of i js] by simp
qed

lemma py_max_default_upper: "i \<in> set ids \<Longrightarrow> i \<le> py_max_default ids d"
  by (auto simp: py_max_default_Max)

lemma py_max_default_snoc:
  assumes "n = py_max_default ids 0 + 1"
  shows "py_max_default (ids @ [n]) 0 = n"
proof (cases "ids = []")
  case True
  with assms show ?thesis by simp
next
  case False
  have "\<forall>i \<in> set ids. i \<le> n" using assms py_max_default_upper[of _ ids 0] by fastforce
  then have "Max (insert n (set ids)) = n"
    by (intro Max_eqI) auto
  then show ?thesis by (simp add: py_max_default_Max)
qed

lemma sector_ids_append: "sector_ids (xs @ ys) = sector_ids xs @ sector_ids ys"
  by (simp add: sector_ids_def)

lemma next_sector_id_snoc:
  assumes "next_sector_id rows = Inr n" and "dict_get r ''id'' (VInt 0) = VInt n"
  shows "next_sector_id (rows @ [r]) = Inr (n + 1)"
proof -
  from assms(1) obtain ids where ids: "ints_of (sector_ids rows) = Some ids"
    and n: "n = py_max_default ids 0 + 1"
    by (auto simp: next_sector_id_def split: option.splits)
  have "sector_ids [r] = [VInt n]" using assms(2) by (simp add: sector_ids_def)
  then have "ints_of (sector_ids [r]) = Some [n]" by simp
  from ints_of_append[OF ids this]
  have "ints_of (sector_ids (rows @ [r])) = Some (ids @ [n])" by (simp add: sector_ids_append)
  then show ?thesis using py_max_default_snoc[OF n] by (simp add: next_sector_id_def)
qed

lemma next_sector_id_stubs:
  "next_sector_id rows = Inr n \<Longrightarrow>
   next_sector_id (rows @ stubs_for d n cs) = Inr (n + int (length cs))"
proof (induction cs arbitrary: rows n)
  case Nil
  then show ?case by simp
next
  case (Cons c cs)
  let ?stub = "stub_sector n c ''Automatically generated stub sector'' d"
  have "dict_get ?stub ''id'' (VInt 0) = VInt n" by (simp add: stub_sector_def dict_get_def)
  from next_sector_id_snoc[OF Cons.prems this]
  have "next_sector_id ((rows @ [?stub]) @ stubs_for d (n + 1) cs) = Inr (n + 1 + int (length cs))"
    by (rule Cons.IH)
  then show ?case by (simp add: add.assoc)
qed

text \<open>What the stub pass appends: nothing, or the stubs for some codes from the next id on.\<close>

lemma create_stub_sectors_sectors:
  "sectors (create_stub_sectors order d st) = sectors st \<or>
   (\<exists>n cs. next_sector_id (sectors st) = Inr n \<and>
        sectors (create_stub_sectors order d st) = sectors st @ stubs_for d n cs)"
  by (auto simp: create_stub_sectors_def add_stubs_sectors split: sum.split)

lemma create_specific_sector_sectors:
  "sectors (create_specific_sector d c st) = sectors st \<or>
   (\<exists>n. next_sector_id (sectors st) = Inr n \<and>
        sectors (create_specific_sector d c st) =
          sectors st @ [stub_sector n c ''Manually created stub sector'' d])"
  by (auto simp: create_specific_sector_def append_sector_def split: sum.split)

text \<open>The records appended by the repair have consecutive ids from the next id on.\<close>

lemma repair_sectors_new:
  "\<exists>new. sectors (repair_sectors order d1 d2 st) = sectors st @ new \<and>
     (new \<noteq> [] \<longrightarrow> (\<exists>n. next_sector_id (sectors st) = Inr n \<and>
         sector_ids new = map (\<lambda>k. VInt (n + int k)) [0..<length new]))"
proof -
  let ?st1 = "create_stub_sectors order d1 st"
  have rep: "repair_sectors order d1 d2 st = ?st1 \<or>
      repair_sectors order d1 d2 st = create_specific_sector d2 ''ANM'' ?st1"
    by (simp add: repair_sectors_def Let_def)
  from create_stub_sectors_sectors[of order d1 st]
  consider (none) "sectors ?st1 = sectors st"
    | (stubs) n cs where "next_sector_id (sectors st) = Inr n"
        "sectors ?st1 = sectors st @ stubs_for d1 n cs"
    by blast
  then show ?thesis
  proof cases
    case none
    from create_specific_sector_sectors[of d2 "''ANM''" ?st1]
    show ?thesis
    proof
      assume "sectors (create_specific_sector d2 ''ANM'' ?st1) = sectors ?st1"
      with none rep have "sectors (repair_sectors order d1 d2 st) = sectors st @ []" by auto
      then show ?thesis by blast
    next
      assume "\<exists>n. next_sector_id (sectors ?st1) = Inr n \<and>
        sectors (create_specific_sector d2 ''ANM'' ?st1) =
          sectors ?st1 @ [stub_sector n ''ANM'' ''Manually created stub sector'' d2]"
      then obtain n where n: "next_sector_id (sectors st) = Inr n"
        and s: "sectors (create_specific_sector d2 ''ANM'' ?st1) =
          sectors st @ [stub_sector n ''ANM'' ''Manually created stub sector'' d2]"
        using none by auto
      from rep show ?thesis
      proof
        assume "repair_sectors order d1 d2 st = ?st1"
        with none have "sectors (repair_sectors order d1 d2 st) = sectors st @ []" by simp
        then show ?thesis by blast
      next
        assume "repair_sectors order d1 d2 st = create_specific_sector d2 ''ANM'' ?st1"
        with s have "sectors (repair_sectors order d1 d2 st) =
            sectors st @ [stub_sector n ''ANM'' ''Manually created stub sector'' d2]" by simp
        moreover have "sector_ids [stub_sector n ''ANM'' ''Manually created stub sector'' d2]
            = map (\<lambda>k. VInt (n + int k)) [0..<length [stub_sector n ''ANM'' ''Manually created stub sector'' d2]]"
          by (simp add: sector_ids_def stub_sector_def dict_get_def)
        ultimately show ?thesis using n by blast
      qed
    qed
  next
    case stubs
    from rep show ?thesis
    proof
      assume "repair_sectors order d1 d2 st = ?st1"
      with stubs have "sectors (repair_sectors order d1 d2 st) = sectors st @ stubs_for d1 n cs"
        by simp
      moreover have "sector_ids (stubs_for d1 n cs) =
          map (\<lambda>k. VInt (n + int k)) [0..<length (stubs_for d1 n cs)]"
        by (simp add: stubs_for_ids stubs_for_length)
      ultimately show ?thesis using stubs(1) by blast
    next
      assume r: "repair_sectors order d1 d2 st = create_specific_sector d2 ''ANM'' ?st1"
      from create_specific_sector_sectors[of d2 "''ANM''" ?st1]
      show ?thesis
      proof
        assume "sectors (create_specific_sector d2 ''ANM'' ?st1) = sectors ?st1"
        with r stubs have "sectors (repair_sectors order d1 d2 st) = sectors st @ stubs_for d1 n cs"
          by simp
        moreover have "sector_ids (stubs_for d1 n cs) =
            map (\<lambda>k. VInt (n + int k)) [0..<length (stubs_for d1 n cs)]"
          by (simp add: stubs_for_ids stubs_for_length)
        ultimately show ?thesis using stubs(1) by blast
      next
        assume "\<exists>m. next_sector_id (sectors ?st1) = Inr m \<and>
          sectors (create_specific_sector d2 ''ANM'' ?st1) =
            sectors ?st1 @ [stub_sector m ''ANM'' ''Manually created stub sector'' d2]"
        then obtain m where m: "next_sector_id (sectors ?st1) = Inr m"
          and s: "sectors (create_specific_sector d2 ''ANM'' ?st1) =
            sectors ?st1 @ [stub_sector m ''ANM'' ''Manually created stub sector'' d2]"
          by blast
        from m stubs next_sector_id_stubs[OF stubs(1), of d1 cs]
        have m_eq: "m = n + int (length cs)" by simp
        let ?new = "stubs_for d1 n cs @ [stub_sector m ''ANM'' ''Manually created stub sector'' d2]"
        have "sectors (repair_sectors order d1 d2 st) = sectors st @ ?new"
          using r s stubs by simp
        moreover have "sector_ids [stub_sector m ''ANM'' ''Manually created stub sector'' d2]
            = [VInt m]"
          by (simp add: sector_ids_def stub_sector_def dict_get_def)
        then have "sector_ids ?new = map (\<lambda>k. VInt (n + int k)) [0..<length ?new]"
          by (simp add: sector_ids_append stubs_for_ids stubs_for_length m_eq)
        ultimately show ?thesis using stubs(1) by blast
      qed
    qed
  qed
qed

lemma dict_get_truthy: "truthy (dict_get r k VNone) \<Longrightarrow> dict_get r k d = dict_get r k VNone"
  by (cases "map_of r k") (simp_all add: dict_get_def)

lemma load_sectors_codes_ok:
  assumes "sector_codes st = {}"
  shows "codes_ok (load_sectors db st)"
proof (cases "sectors_table db")
  case None
  with assms show ?thesis by (simp add: codes_ok_def load_sectors_def)
next
  case (Some rows)
  have "\<exists>sec \<in> set rows. dict_get sec ''location'' VNone = c"
    if "c \<in> set (map (\<lambda>sector. dict_get sector ''location'' (VStr []))
                  (filter (\<lambda>sector. truthy (dict_get sector ''location'' VNone)) rows))" for c
  proof -
    from that obtain r where r: "r \<in> set rows" "truthy (dict_get r ''location'' VNone)"
      and c: "c = dict_get r ''location'' (VStr [])" by auto
    from c dict_get_truthy[OF r(2), of "VStr []"] have "dict_get r ''location'' VNone = c"
      by simp
    with r(1) show ?thesis by blast
  qed
  with Some show ?thesis by (simp add: codes_ok_def load_sectors_def)
qed

lemma load_sectors_frame:
  "subsectors (load_sectors db st) = subsectors st"
  "systems (load_sectors db st) = systems st"
  "planets (load_sectors db st) = planets st"
  by (simp_all add: load_sectors_def split: option.split)

lemma load_subsectors_frame:
  "sectors (load_subsectors db st) = sectors st"
  "sector_codes (load_subsectors db st) = sector_codes st"
  "systems (load_subsectors db st) = systems st"
  "planets (load_subsectors db st) = planets st"
  by (simp_all add: load_subsectors_def split: option.split)

lemma load_systems_frame:
  "sectors (load_systems db st) = sectors st"
  "sector_codes (load_systems db st) = sector_codes st"
  "subsectors (load_systems db st) = subsectors st"
  "planets (load_systems db st) = planets st"
  by (simp_all add: load_systems_def split: option.split)

lemma load_planets_frame:
  "sectors (load_planets db st) = sectors st"
  "sector_codes (load_planets db st) = sector_codes st"
  "subsectors (load_planets db st) = subsectors st"
  "systems (load_planets db st) = systems st"
  by (simp_all add: load_planets_def split: option.split)

lemmas load_frames =
  load_sectors_frame load_subsectors_frame load_systems_frame load_planets_frame

lemma load_rows:
  "sectors (load_sectors db st) = rows_of (sectors_table db)"
  "subsectors (load_subsectors db st) = rows_of (subsectors_table db)"
  "systems (load_systems db st) = rows_of (systems_table db)"
  "planets (load_planets db st) = rows_of (planets_table db)"
  by (simp_all add: rows_of_def load_sectors_def load_subsectors_def load_systems_def
        load_planets_def split: option.split)

lemma load_tables_sectors_eq:
  "sectors (load_tables db st) =
     (if ''sectors'' \<in> set (get_table_list db) then rows_of (sectors_table db) else sectors st)"
  by (simp add: load_tables_def Let_def load_frames load_rows)

lemma load_tables_sector_codes_eq:
  "sector_codes (load_tables db st) =
     sector_codes (if ''sectors'' \<in> set (get_table_list db) then load_sectors db st else st)"
  by (simp add: load_tables_def Let_def load_frames)

lemma load_tables_subsectors_eq:
  "subsectors (load_tables db st) =
     (if ''subsectors'' \<in> set (get_table_list db) then rows_of (subsectors_table db)
      else subsectors st)"
  by (simp add: load_tables_def Let_def load_frames load_rows)

lemma load_tables_systems_eq:
  "systems (load_tables db st) =
     (if ''systems'' \<in> set (get_table_list db) then rows_of (systems_table db)
      else systems st)"
  by (simp add: load_tables_def Let_def load_frames load_rows)

lemma load_tables_planets_eq:
  "planets (load_tables db st) =
     (if ''planets'' \<in> set (get_table_list db) then rows_of (planets_table db)
      else planets st)"
  by (simp add: load_tables_def Let_def load_frames load_rows)

lemma integer_ids_next: "integer_ids rows \<longleftrightarrow> (\<exists>n. next_sector_id rows = Inr n)"
  by (simp add: integer_ids_def next_sector_id_def split: option.split)

lemma has_sector_iff:
  "has_sector st code \<longleftrightarrow>
     (\<exists>sec \<in> set (sectors st). dict_get sec ''location'' VNone = VStr code)"
  by (simp add: has_sector_def list_ex_iff)

lemma codes_ok_has_sector: "codes_ok st \<Longrightarrow> VStr c \<in> sector_codes st \<Longrightarrow> has_sector st c"
  unfolding codes_ok_def has_sector_iff by blast

lemma stub_location_found:
  assumes "x \<in> set cs"
  shows "\<exists>sec \<in> set (stubs_for d n cs). dict_get sec ''location'' VNone = VStr x"
proof -
  from assms have "VStr x \<in> set (map VStr cs)" by simp
  then have "VStr x \<in> set (map (\<lambda>r. dict_get r ''location'' VNone) (stubs_for d n cs))"
    by (simp only: stubs_for_locations)
  then obtain sec where "sec \<in> set (stubs_for d n cs)"
    and "dict_get sec ''location'' VNone = VStr x"
    unfolding set_map image_iff by metis
  then show ?thesis by blast
qed

lemma add_stubs_codes_ok:
  assumes ok: "codes_ok st"
  shows "codes_ok (add_stubs d cs n st)"
  unfolding codes_ok_def add_stubs_sectors add_stubs_codes
proof
  fix c assume "c \<in> sector_codes st \<union> VStr ` set cs"
  then consider "c \<in> sector_codes st" | x where "x \<in> set cs" "c = VStr x" by blast
  then show "\<exists>sec \<in> set (sectors st @ stubs_for d n cs). dict_get sec ''location'' VNone = c"
  proof cases
    case 1
    with ok obtain sec where "sec \<in> set (sectors st)" "dict_get sec ''location'' VNone = c"
      unfolding codes_ok_def by blast
    then show ?thesis by auto
  next
    case 2
    from stub_location_found[OF 2(1), of d n] 2(2) show ?thesis by auto
  qed
qed

lemma create_stub_sectors_codes_ok:
  "codes_ok st \<Longrightarrow> codes_ok (create_stub_sectors order d st)"
  by (simp add: create_stub_sectors_def add_stubs_codes_ok split: sum.split)

lemma create_stub_sectors_integer_ids:
  assumes "integer_ids (sectors st)"
  shows "integer_ids (sectors (create_stub_sectors order d st))"
proof -
  from create_stub_sectors_sectors[of order d st]
  consider "sectors (create_stub_sectors order d st) = sectors st"
    | n cs where "next_sector_id (sectors st) = Inr n"
        "sectors (create_stub_sectors order d st) = sectors st @ stubs_for d n cs"
    by blast
  then show ?thesis
  proof cases
    case 1
    with assms show ?thesis by simp
  next
    case 2
    from next_sector_id_stubs[OF 2(1), of d cs] 2(2) show ?thesis
      unfolding integer_ids_next by simp
  qed
qed

lemma has_sector_append:
  "sectors st' = sectors st @ new \<Longrightarrow> has_sector st c \<Longrightarrow> has_sector st' c"
  unfolding has_sector_iff by auto

lemma create_specific_sector_keeps:
  "has_sector st c \<Longrightarrow> has_sector (create_specific_sector d code st) c"
  using create_specific_sector_sectors[of d code st] has_sector_append[of _ st _ c]
  by (metis append_Nil2)

lemma repair_sectors_keeps:
  "has_sector (create_stub_sectors order d1 st) c \<Longrightarrow> has_sector (repair_sectors order d1 d2 st) c"
  by (simp add: repair_sectors_def Let_def create_specific_sector_keeps)

lemma repair_sectors_anm:
  assumes ok: "codes_ok st" and ids: "integer_ids (sectors st)"
  shows "has_sector (repair_sectors order d1 d2 st) ''ANM''"
proof -
  let ?st1 = "create_stub_sectors order d1 st"
  have ok1: "codes_ok ?st1" using ok by (rule create_stub_sectors_codes_ok)
  have ids1: "integer_ids (sectors ?st1)" using ids by (rule create_stub_sectors_integer_ids)
  show ?thesis
  proof (cases "has_sector ?st1 ''ANM''")
    case True
    then show ?thesis by (rule repair_sectors_keeps)
  next
    case False
    with ok1 have notin: "VStr ''ANM'' \<notin> sector_codes ?st1"
      using codes_ok_has_sector by blast
    from ids1 obtain n where n: "next_sector_id (sectors ?st1) = Inr n"
      unfolding integer_ids_next by blast
    have "has_sector (create_specific_sector d2 ''ANM'' ?st1) ''ANM''"
      using notin n
      by (simp add: create_specific_sector_def append_sector_def has_sector_def
            stub_sector_def dict_get_def)
    with False show ?thesis by (simp add: repair_sectors_def Let_def has_sector_def)
  qed
qed

lemma rows_of_integer_ids:
  "(case table of None \<Rightarrow> True | Some rows \<Rightarrow> integer_ids rows) \<Longrightarrow> integer_ids (rows_of table)"
  by (cases table) (simp_all add: rows_of_def integer_ids_def sector_ids_def)

lemma rows_of_text_locations:
  "(case table of None \<Rightarrow> True | Some rows \<Rightarrow> text_locations rows)
   \<Longrightarrow> text_locations (rows_of table)"
  by (cases table) (simp_all add: rows_of_def text_locations_def)

lemma sector_refs_simps:
  "sector_refs f [] = []"
  "sector_refs f (r # rows) = location_refs f r @ sector_refs f rows"
  by (simp_all add: sector_refs_def)

lemma sector_refs_member:
  assumes "r \<in> set rows" and "dict_get r ''location'' (VStr []) = VStr s"
    and "3 \<le> length s" and "f s \<noteq> []"
  shows "f s \<in> set (sector_refs f rows)"
proof -
  from assms(2-4) have "f s \<in> set (location_refs f r)" by (simp add: location_refs_def)
  with assms(1) show ?thesis unfolding sector_refs_def by auto
qed

lemma check_location_set:
  assumes "case dict_get r ''location'' (VStr []) of VInt i \<Rightarrow> i = 0 | _ \<Rightarrow> True"
  shows "\<exists>m'. check_location f codes r m = Inr m'
           \<and> set m' = set m \<union> {c \<in> set (location_refs f r). VStr c \<notin> codes}"
proof (cases "dict_get r ''location'' (VStr [])")
  case VNone
  then show ?thesis by (simp add: check_location_def location_refs_def)
next
  case (VInt i)
  with assms show ?thesis by (simp add: check_location_def location_refs_def)
next
  case (VStr s)
  then show ?thesis
    by (auto simp: check_location_def location_refs_def set_add_def Let_def)
qed

lemma check_locations_set:
  assumes "text_locations rows"
  shows "\<exists>m'. check_locations f codes rows m = Inr m'
           \<and> set m' = set m \<union> {c \<in> set (sector_refs f rows). VStr c \<notin> codes}"
  using assms
proof (induction rows arbitrary: m)
  case Nil
  then show ?case by (simp add: sector_refs_simps)
next
  case (Cons r rows)
  from Cons.prems have r: "case dict_get r ''location'' (VStr []) of VInt i \<Rightarrow> i = 0 | _ \<Rightarrow> True"
    and rest: "text_locations rows" by (simp_all add: text_locations_def)
  from check_location_set[OF r, of f codes m] obtain m1 where
    m1: "check_location f codes r m = Inr m1"
    and s1: "set m1 = set m \<union> {c \<in> set (location_refs f r). VStr c \<notin> codes}" by blast
  from Cons.IH[OF rest, of m1] obtain m2 where
    m2: "check_locations f codes rows m1 = Inr m2"
    and s2: "set m2 = set m1 \<union> {c \<in> set (sector_refs f rows). VStr c \<notin> codes}" by blast
  have "check_locations f codes (r # rows) m = Inr m2" using m1 m2 by simp
  moreover have "set m2 = set m \<union> {c \<in> set (sector_refs f (r # rows)). VStr c \<notin> codes}"
    unfolding s2 s1 sector_refs_simps by auto
  ultimately show ?case by blast
qed

lemma create_stub_sectors_resolves:
  assumes ok: "codes_ok st" and ids: "integer_ids (sectors st)"
    and tp: "text_locations (planets st)" and ty: "text_locations (systems st)"
    and ts: "text_locations (subsectors st)"
    and iter: "\<forall>xs. set (order xs) = set xs"
    and c: "c \<in> set (sector_refs planet_sector_code (planets st))
              \<union> set (sector_refs (take 3) (systems st))
              \<union> set (sector_refs (take 3) (subsectors st))"
  shows "has_sector (create_stub_sectors order d st) c"
proof -
  let ?codes = "sector_codes st"
  from check_locations_set[OF tp, of planet_sector_code ?codes "[]"] obtain m1 where
    m1: "check_locations planet_sector_code ?codes (planets st) [] = Inr m1"
    and s1: "set m1 = set [] \<union> {c \<in> set (sector_refs planet_sector_code (planets st)).
                                  VStr c \<notin> ?codes}" by blast
  from check_locations_set[OF ty, of "take 3" ?codes m1] obtain m2 where
    m2: "check_locations (take 3) ?codes (systems st) m1 = Inr m2"
    and s2: "set m2 = set m1 \<union> {c \<in> set (sector_refs (take 3) (systems st)).
                                  VStr c \<notin> ?codes}" by blast
  from check_locations_set[OF ts, of "take 3" ?codes m2] obtain m3 where
    m3: "check_locations (take 3) ?codes (subsectors st) m2 = Inr m3"
    and s3: "set m3 = set m2 \<union> {c \<in> set (sector_refs (take 3) (subsectors st)).
                                  VStr c \<notin> ?codes}" by blast
  from ids obtain n where n: "next_sector_id (sectors st) = Inr n"
    unfolding integer_ids_next by blast
  have res: "create_stub_sectors order d st = add_stubs d (order m3) n st"
    using m1 m2 m3 n by (simp add: create_stub_sectors_def)
  have sec: "sectors (create_stub_sectors order d st) = sectors st @ stubs_for d n (order m3)"
    unfolding res by (rule add_stubs_sectors)
  show ?thesis
  proof (cases "VStr c \<in> ?codes")
    case True
    with ok have "has_sector st c" by (rule codes_ok_has_sector)
    with sec show ?thesis by (rule has_sector_append)
  next
    case False
    with c have "c \<in> set m3" unfolding s3 s2 s1 by auto
    with iter have "c \<in> set (order m3)" by simp
    from stub_location_found[OF this, of d n] show ?thesis
      unfolding has_sector_iff sec by auto
  qed
qed

lemma text_locations_Nil: "text_locations []"
  by (simp add: text_locations_def)

lemma load_sectors_tracked:
  assumes "sectors_table db \<noteq> None \<or> sector_codes st = {}"
  shows "codes_ok (load_sectors db st)"
proof (cases "sectors_table db")
  case None
  with assms have "sector_codes st = {}" by simp
  then show ?thesis by (rule load_sectors_codes_ok)
next
  case (Some rows)
  have "\<exists>sec \<in> set rows. dict_get sec ''location'' VNone = c"
    if "c \<in> set (map (\<lambda>sector. dict_get sector ''location'' (VStr []))
                  (filter (\<lambda>sector. truthy (dict_get sector ''location'' VNone)) rows))" for c
  proof -
    from that obtain r where r: "r \<in> set rows" "truthy (dict_get r ''location'' VNone)"
      and c: "c = dict_get r ''location'' (VStr [])" by auto
    from c dict_get_truthy[OF r(2), of "VStr []"] have "dict_get r ''location'' VNone = c"
      by simp
    with r(1) show ?thesis by blast
  qed
  with Some show ?thesis by (simp add: codes_ok_def load_sectors_def)
qed

lemma load_tables_tracked:
  assumes "sectors_tracked db st"
  shows "codes_ok (load_tables db st)"
proof (cases "''sectors'' \<in> set (get_table_list db)")
  case True
  with assms have "sectors_table db \<noteq> None \<or> sector_codes st = {}"
    by (simp add: sectors_tracked_def)
  then have "codes_ok (load_sectors db st)" by (rule load_sectors_tracked)
  then show ?thesis
    unfolding codes_ok_def load_tables_sectors_eq load_tables_sector_codes_eq
    using True by (simp add: load_rows)
next
  case False
  with assms have "codes_ok st" by (simp add: sectors_tracked_def)
  then show ?thesis
    unfolding codes_ok_def load_tables_sectors_eq load_tables_sector_codes_eq
    using False by simp
qed

lemma load_tables_integer_ids:
  assumes "sectors_tracked db st"
    and "case sectors_table db of None \<Rightarrow> True | Some rows \<Rightarrow> integer_ids rows"
  shows "integer_ids (sectors (load_tables db st))"
proof (cases "''sectors'' \<in> set (get_table_list db)")
  case True
  with rows_of_integer_ids[OF assms(2)] show ?thesis
    unfolding load_tables_sectors_eq by simp
next
  case False
  with assms(1) show ?thesis
    unfolding load_tables_sectors_eq by (simp add: sectors_tracked_def)
qed

lemma load_tables_text_locations:
  assumes "well_typed db" and "kept_rows_typed db st"
  shows "text_locations (planets (load_tables db st))"
    and "text_locations (systems (load_tables db st))"
    and "text_locations (subsectors (load_tables db st))"
proof -
  from assms(1) have
    w2: "case subsectors_table db of None \<Rightarrow> True | Some rows \<Rightarrow> text_locations rows"
    and w3: "case systems_table db of None \<Rightarrow> True | Some rows \<Rightarrow> text_locations rows"
    and w4: "case planets_table db of None \<Rightarrow> True | Some rows \<Rightarrow> text_locations rows"
    by (simp_all add: well_typed_def)
  from assms(2) have
    k2: "''subsectors'' \<in> set (get_table_list db) \<or> text_locations (subsectors st)"
    and k3: "''systems'' \<in> set (get_table_list db) \<or> text_locations (systems st)"
    and k4: "''planets'' \<in> set (get_table_list db) \<or> text_locations (planets st)"
    by (simp_all add: kept_rows_typed_def)
  show "text_locations (planets (load_tables db st))"
    unfolding load_tables_planets_eq using rows_of_text_locations[OF w4] k4 by auto
  show "text_locations (systems (load_tables db st))"
    unfolding load_tables_systems_eq using rows_of_text_locations[OF w3] k3 by auto
  show "text_locations (subsectors (load_tables db st))"
    unfolding load_tables_subsectors_eq using rows_of_text_locations[OF w2] k2 by auto
qed

lemma sectors_tracked_conn: "sectors_tracked db (st\<lparr>conn := c\<rparr>) = sectors_tracked db st"
  by (simp add: sectors_tracked_def codes_ok_def)

lemma kept_rows_typed_conn: "kept_rows_typed db (st\<lparr>conn := c\<rparr>) = kept_rows_typed db st"
  by (simp add: kept_rows_typed_def)

text \<open>The freshly constructed loader meets both conditions, for every store.\<close>

lemma fresh_loader_ready:
  "sectors_tracked db DataLoader_init" "kept_rows_typed db DataLoader_init"
  by (simp_all add: sectors_tracked_def kept_rows_typed_def DataLoader_init_def codes_ok_def
        integer_ids_def sector_ids_def text_locations_def)

text \<open>So does every loader, when the four tables are listed and the sectors query succeeds.\<close>

lemma reread_loader_ready:
  assumes "table_names db = Some [''sectors'', ''subsectors'', ''systems'', ''planets'']"
    and "sectors_table db \<noteq> None"
  shows "sectors_tracked db st" "kept_rows_typed db st"
  using assms by (simp_all add: sectors_tracked_def kept_rows_typed_def get_table_list_def)

lemma create_specific_sector_codes_ok:
  assumes "codes_ok st"
  shows "codes_ok (create_specific_sector d c st)"
proof (cases "VStr c \<in> sector_codes st")
  case True
  with assms show ?thesis by (simp add: create_specific_sector_def)
next
  case False
  show ?thesis
  proof (cases "next_sector_id (sectors st)")
    case (Inl e)
    with False assms show ?thesis by (simp add: create_specific_sector_def)
  next
    case (Inr n)
    have "create_specific_sector d c st =
        append_sector (stub_sector n c ''Manually created stub sector'' d) c n st"
      using False Inr by (simp add: create_specific_sector_def)
    moreover have "codes_ok (append_sector (stub_sector n c ''Manually created stub sector'' d)
        c n st)"
      using assms unfolding codes_ok_def
      by (auto simp: append_sector_def stub_sector_def dict_get_def)
    ultimately show ?thesis by simp
  qed
qed

lemma repair_sectors_codes_ok:
  "codes_ok st \<Longrightarrow> codes_ok (repair_sectors order d1 d2 st)"
  by (simp add: repair_sectors_def Let_def create_stub_sectors_codes_ok
        create_specific_sector_codes_ok)

lemma load_resolves_refs:
  assumes ex: "path_exists db"
    and iter: "\<forall>xs. set (order xs) = set xs"
    and wt: "well_typed db"
    and tr: "sectors_tracked db st"
    and kept: "kept_rows_typed db st"
  shows "\<exists>st'. load order d1 d2 db st = Inr st' \<and>
     (\<forall>c \<in> set (sector_refs planet_sector_code (planets st'))
              \<union> set (sector_refs (take 3) (systems st'))
              \<union> set (sector_refs (take 3) (subsectors st')). has_sector st' c)"
proof (cases "connect_ok db")
  case False
  with ex have "load order d1 d2 db st =
      Inr (st\<lparr>sectors := [], subsectors := [], systems := [], planets := []\<rparr>)"
    by (simp add: load_def)
  then show ?thesis by (simp add: sector_refs_def)
next
  case True
  let ?st0 = "load_tables db (st\<lparr>conn := Some Open\<rparr>)"
  let ?st' = "repair_sectors order d1 d2 ?st0"
  have ld: "load order d1 d2 db st = Inr ?st'"
    using ex True by (simp add: load_def)
  have tr0: "sectors_tracked db (st\<lparr>conn := Some Open\<rparr>)"
    using tr by (simp only: sectors_tracked_conn)
  have kept0: "kept_rows_typed db (st\<lparr>conn := Some Open\<rparr>)"
    using kept by (simp only: kept_rows_typed_conn)
  have ok: "codes_ok ?st0" using tr0 by (rule load_tables_tracked)
  from wt have w1: "case sectors_table db of None \<Rightarrow> True | Some rows \<Rightarrow> integer_ids rows"
    by (simp add: well_typed_def)
  have ids: "integer_ids (sectors ?st0)" using tr0 w1 by (rule load_tables_integer_ids)
  note tl = load_tables_text_locations[OF wt kept0]
  have "has_sector ?st' c"
    if "c \<in> set (sector_refs planet_sector_code (planets ?st0))
              \<union> set (sector_refs (take 3) (systems ?st0))
              \<union> set (sector_refs (take 3) (subsectors ?st0))" for c
    using create_stub_sectors_resolves[OF ok ids tl iter that, of d1]
    by (rule repair_sectors_keeps)
  then have "\<forall>c \<in> set (sector_refs planet_sector_code (planets ?st'))
              \<union> set (sector_refs (take 3) (systems ?st'))
              \<union> set (sector_refs (take 3) (subsectors ?st')). has_sector ?st' c"
    unfolding repair_sectors_frame by blast
  with ld show ?thesis by blast
qed

lemmas load_eval =
  load_def load_tables_def get_table_list_def
  load_sectors_def load_subsectors_def load_systems_def load_planets_def
  repair_sectors_def create_stub_sectors_def
  check_location_def planet_sector_code_def set_add_def dict_get_def next_sector_id_def
  sector_ids_def append_sector_def stub_sector_def create_specific_sector_def Let_def

lemma example_load_sectors:
  "sectors (projr (load id example_date example_date example_db DataLoader_init)) =
     [[(''id'', VInt 5), (''location'', VStr ''AAA'')],
      stub_sector 6 ''BBB'' ''Automatically generated stub sector'' example_date,
      stub_sector 7 ''CCC'' ''Automatically generated stub sector'' example_date,
      stub_sector 8 ''ANM'' ''Manually created stub sector'' example_date]"
  by (simp add: example_db_def DataLoader_init_def load_eval)

lemma example_load_others:
  "\<not> isl (load id example_date example_date example_db DataLoader_init)"
  "planets (projr (load id example_date example_date example_db DataLoader_init)) =
     [[(''id'', VInt 1), (''location'', VStr ''BBB11111'')],
      [(''id'', VInt 2), (''location'', VStr ''CCC/222/1/1'')]]"
  "subsectors (projr (load id example_date example_date example_db DataLoader_init)) = []"
  "systems (projr (load id example_date example_date example_db DataLoader_init)) = []"
  by (simp_all add: example_db_def DataLoader_init_def load_eval)

lemma loaded_once_fields:
  "sectors loaded_once =
     [[(''id'', VInt 5), (''location'', VStr ''AAA'')],
      stub_sector 6 ''BBB'' ''Automatically generated stub sector'' example_date,
      stub_sector 7 ''CCC'' ''Automatically generated stub sector'' example_date,
      stub_sector 8 ''ANM'' ''Manually created stub sector'' example_date]"
  "sector_codes loaded_once = {VStr ''ANM'', VStr ''CCC'', VStr ''BBB'', VStr ''AAA''}"
  "planets loaded_once =
     [[(''id'', VInt 1), (''location'', VStr ''BBB11111'')],
      [(''id'', VInt 2), (''location'', VStr ''CCC/222/1/1'')]]"
  "subsectors loaded_once = []"
  "systems loaded_once = []"
  "conn loaded_once = Some Open"
  by (simp_all add: loaded_once_def example_db_def DataLoader_init_def load_eval)

text \<open>
  A second load, of the store with rows in all four tables, on the loader that has loaded
  the example store: the sectors are read anew and a stub is made for each of the four
  sectors that the planets, the system and the subsector refer to, then ANM.
\<close>

lemma reload_full_sectors:
  "map (\<lambda>sector. dict_get sector ''location'' VNone)
     (sectors (projr (load id example_date example_date full_db loaded_once))) =
     [VStr ''AAA'', VStr ''BBB'', VStr ''CCC'', VStr ''EEE'', VStr ''DDD'', VStr ''ANM'']"
  "sector_ids (sectors (projr (load id example_date example_date full_db loaded_once))) =
     [VInt 5, VInt 6, VInt 7, VInt 8, VInt 9, VInt 10]"
  by (simp_all add: full_db_def load_eval)

lemma reload_full_state:
  "sectors (projr (load id example_date example_date full_db loaded_once)) =
     [[(''id'', VInt 5), (''location'', VStr ''AAA'')],
      stub_sector 6 ''BBB'' ''Automatically generated stub sector'' example_date,
      stub_sector 7 ''CCC'' ''Automatically generated stub sector'' example_date,
      stub_sector 8 ''EEE'' ''Automatically generated stub sector'' example_date,
      stub_sector 9 ''DDD'' ''Automatically generated stub sector'' example_date,
      stub_sector 10 ''ANM'' ''Manually created stub sector'' example_date]"
  "subsectors (projr (load id example_date example_date full_db loaded_once)) =
     [[(''id'', VInt 1), (''location'', VStr ''DDD123'')]]"
  "systems (projr (load id example_date example_date full_db loaded_once)) =
     [[(''id'', VInt 1), (''location'', VStr ''EEE1234'')]]"
  by (simp_all add: full_db_def load_eval)

text \<open>
  A second load whose sectors query raises, on the same loader: the handler of
  \<open>_load_sectors\<close> empties \<open>sectors\<close> and leaves \<open>sector_codes\<close> as the first load
  set it. The stub pass then takes BBB for present and
  \<open>_create_specific_sector\<close> takes ANM for present: the planet at BBB11111 is
  loaded and the sectors collection is empty.
\<close>

lemma reload_with_stale_sector_codes:
  "\<not> isl (load id example_date example_date stale_db loaded_once)"
  "sectors (projr (load id example_date example_date stale_db loaded_once)) = []"
  "planets (projr (load id example_date example_date stale_db loaded_once)) =
     [[(''id'', VInt 1), (''location'', VStr ''BBB11111'')]]"
  by (simp_all add: stale_db_def load_eval loaded_once_fields)

text \<open>
  A planet whose location is a number: \<open>len\<close> raises outside the inner \<open>try\<close> of the
  planet loop and the stub pass is left without any stub; only ANM is created, and the
  planet at BBB11111 has no sector.
\<close>

lemma numeric_location_ends_stub_pass:
  "map (\<lambda>sector. dict_get sector ''location'' VNone)
     (sectors (projr (load id example_date example_date numeric_db DataLoader_init))) =
     [VStr ''ANM'']"
  by (simp add: numeric_db_def DataLoader_init_def load_eval)

text \<open>
  After a load that opened the connection, on the conditions of the theorems below, the
  loader is again in a state that meets them: its sector codes are tracked, its sector ids
  are integers and its collections have no numeric location.
\<close>

lemma load_leaves_loader_tracked:
  assumes "path_exists db" and "connect_ok db" and wt: "well_typed db"
    and tr: "sectors_tracked db st" and kept: "kept_rows_typed db st"
  shows "\<exists>st'. load order d1 d2 db st = Inr st' \<and> codes_ok st'
           \<and> integer_ids (sectors st')
           \<and> text_locations (planets st') \<and> text_locations (systems st')
           \<and> text_locations (subsectors st')"
proof -
  let ?st0 = "load_tables db (st\<lparr>conn := Some Open\<rparr>)"
  let ?st' = "repair_sectors order d1 d2 ?st0"
  have ld: "load order d1 d2 db st = Inr ?st'" using assms(1,2) by (simp add: load_def)
  have tr0: "sectors_tracked db (st\<lparr>conn := Some Open\<rparr>)"
    using tr by (simp only: sectors_tracked_conn)
  have kept0: "kept_rows_typed db (st\<lparr>conn := Some Open\<rparr>)"
    using kept by (simp only: kept_rows_typed_conn)
  have "codes_ok ?st0" using tr0 by (rule load_tables_tracked)
  then have a: "codes_ok ?st'" by (rule repair_sectors_codes_ok)
  from wt have w1: "case sectors_table db of None \<Rightarrow> True | Some rows \<Rightarrow> integer_ids rows"
    by (simp add: well_typed_def)
  have ids: "integer_ids (sectors ?st0)" using tr0 w1 by (rule load_tables_integer_ids)
  have b: "integer_ids (sectors ?st')"
  proof -
    from repair_sectors_new[of order d1 d2 ?st0] obtain new where
      new: "sectors ?st' = sectors ?st0 @ new"
      and nid: "new \<noteq> [] \<longrightarrow> (\<exists>n. next_sector_id (sectors ?st0) = Inr n \<and>
         sector_ids new = map (\<lambda>k. VInt (n + int k)) [0..<length new])" by blast
    show ?thesis
    proof (cases "new = []")
      case True
      with new ids show ?thesis by simp
    next
      case False
      with nid obtain n where
        sn: "sector_ids new = map (\<lambda>k. VInt (n + int k)) [0..<length new]" by blast
      from ids obtain old where old: "ints_of (sector_ids (sectors ?st0)) = Some old"
        by (auto simp: integer_ids_def)
      have "sector_ids new = map VInt (map (\<lambda>k. n + int k) [0..<length new])"
        using sn by simp
      then have "ints_of (sector_ids new) = Some (map (\<lambda>k. n + int k) [0..<length new])"
        by (simp only: ints_of_map)
      from ints_of_append[OF old this] show ?thesis
        unfolding integer_ids_def new sector_ids_append by simp
    qed
  qed
  note tl = load_tables_text_locations[OF wt kept0]
  have c: "text_locations (planets ?st')" "text_locations (systems ?st')"
    "text_locations (subsectors ?st')"
    using tl by (simp_all only: repair_sectors_frame)
  from ld a b c show ?thesis by blast
qed

subsection \<open>The connection\<close>

text \<open>
  Claim C8, as amended. \<open>load\<close> does not release the connection: when the file exists
  and the connection opens, the loader still holds the open connection after \<open>load\<close>
  has returned, on every path, also when the queries fail. It is \<open>close\<close> that drops it.
\<close>

theorem load_conn_open:
  assumes "path_exists db" and "connect_ok db"
  shows "\<exists>st'. load order d1 d2 db st = Inr st' \<and> conn st' = Some Open \<and> conn (close st') = None"
  using assms by (simp add: load_def repair_sectors_frame load_tables_conn close_def)

theorem load_conn_open_witness:
  "\<exists>st'. load id example_date example_date failing_db DataLoader_init = Inr st'
         \<and> conn st' = Some Open \<and> conn (close st') = None"
proof -
  have h1: "path_exists failing_db" and h2: "connect_ok failing_db"
    by (simp_all add: failing_db_def)
  from load_conn_open [OF h1 h2] show ?thesis .
qed

text \<open>
  On the store whose four queries all raise, \<open>load\<close> returns and the loader holds the open
  connection.
\<close>

theorem connection_still_open_after_load:
  "\<not> isl (load id example_date example_date failing_db DataLoader_init)
   \<and> conn (projr (load id example_date example_date failing_db DataLoader_init)) = Some Open"
  by (simp add: failing_db_def DataLoader_init_def load_eval)

subsection \<open>Identifiers of the synthesized sectors\<close>

text \<open>
  Claim C4. The records that one \<open>load\<close> appends to the loaded sectors (the stubs of the
  stub pass, in the order of their creation, then the sector forced after it) carry integer
  ids that increase strictly; the first is one more than the greatest id of the loaded
  sectors (a missing id counts as 0, and the first id is 1 when no sector is loaded), and
  every new id is greater than every loaded id.
\<close>

theorem stub_ids_unique_increasing:
  assumes "path_exists db" and "connect_ok db"
  shows "\<exists>st' new new_ids.
      load order d1 d2 db st = Inr st'
      \<and> sectors st' = sectors (load_tables db (st\<lparr>conn := Some Open\<rparr>)) @ new
      \<and> sector_ids new = map VInt new_ids
      \<and> sorted_wrt (<) new_ids
      \<and> (new_ids \<noteq> [] \<longrightarrow>
           (\<exists>ids. sector_ids (sectors (load_tables db (st\<lparr>conn := Some Open\<rparr>))) = map VInt ids
              \<and> hd new_ids = (if ids = [] then 0 else Max (set ids)) + 1
              \<and> (\<forall>i \<in> set ids. \<forall>j \<in> set new_ids. i < j)))"
proof -
  let ?st0 = "load_tables db (st\<lparr>conn := Some Open\<rparr>)"
  let ?st' = "repair_sectors order d1 d2 ?st0"
  have ld: "load order d1 d2 db st = Inr ?st'" using assms by (simp add: load_def)
  from repair_sectors_new[of order d1 d2 ?st0] obtain new where
    new: "sectors ?st' = sectors ?st0 @ new"
    and ids: "new \<noteq> [] \<longrightarrow> (\<exists>n. next_sector_id (sectors ?st0) = Inr n \<and>
         sector_ids new = map (\<lambda>k. VInt (n + int k)) [0..<length new])"
    by blast
  show ?thesis
  proof (cases "new = []")
    case True
    have "sector_ids new = map VInt []" using True by (simp add: sector_ids_def)
    with ld new show ?thesis by (intro exI[of _ ?st'] exI[of _ new] exI[of _ "[]"]) simp
  next
    case False
    with ids obtain n where n: "next_sector_id (sectors ?st0) = Inr n"
      and sn: "sector_ids new = map (\<lambda>k. VInt (n + int k)) [0..<length new]" by blast
    from n obtain old where old: "ints_of (sector_ids (sectors ?st0)) = Some old"
      and n_eq: "n = py_max_default old 0 + 1"
      by (auto simp: next_sector_id_def split: option.splits)
    let ?new_ids = "map (\<lambda>k. n + int k) [0..<length new]"
    have a: "sector_ids new = map VInt ?new_ids" using sn by simp
    have b: "sorted_wrt (<) ?new_ids" by (simp add: sorted_wrt_iff_nth_less)
    have c: "sector_ids (sectors ?st0) = map VInt old" using old by (rule ints_of_Some)
    have d: "hd ?new_ids = (if old = [] then 0 else Max (set old)) + 1"
      using False n_eq by (simp add: hd_map py_max_default_Max)
    have e: "\<forall>i \<in> set old. \<forall>j \<in> set ?new_ids. i < j"
      using n_eq py_max_default_upper[of _ old 0] by fastforce
    from ld new a b c d e show ?thesis
      by (intro exI[of _ ?st'] exI[of _ new] exI[of _ ?new_ids]) blast
  qed
qed

theorem stub_ids_unique_increasing_witness:
  "(\<exists>st' new new_ids.
      load id example_date example_date example_db DataLoader_init = Inr st'
      \<and> sectors st' =
          sectors (load_tables example_db (DataLoader_init\<lparr>conn := Some Open\<rparr>)) @ new
      \<and> sector_ids new = map VInt new_ids
      \<and> sorted_wrt (<) new_ids
      \<and> (new_ids \<noteq> [] \<longrightarrow>
           (\<exists>ids. sector_ids (sectors (load_tables example_db
                                          (DataLoader_init\<lparr>conn := Some Open\<rparr>))) = map VInt ids
              \<and> hd new_ids = (if ids = [] then 0 else Max (set ids)) + 1
              \<and> (\<forall>i \<in> set ids. \<forall>j \<in> set new_ids. i < j))))
   \<and> sector_ids (sectors (projr (load id example_date example_date example_db DataLoader_init)))
       = [VInt 5, VInt 6, VInt 7, VInt 8]"
proof -
  have h1: "path_exists example_db" and h2: "connect_ok example_db"
    by (simp_all add: example_db_def)
  have "sector_ids (sectors (projr (load id example_date example_date example_db
          DataLoader_init))) = [VInt 5, VInt 6, VInt 7, VInt 8]"
    by (simp add: example_load_sectors sector_ids_def stub_sector_def dict_get_def)
  with stub_ids_unique_increasing [OF h1 h2, of id example_date example_date DataLoader_init]
  show ?thesis by blast
qed

subsection \<open>The sector ANM\<close>

text \<open>
  Claim C9, as amended. For every call of \<open>load\<close>, on a fresh loader or on one that has
  loaded before: when the file exists, the connection opens, every id of the sector rows
  is an integer and the loader's sector codes are tracked for the store (which is so on a
  fresh loader, and on every loader when the sectors table is listed and read), \<open>load\<close>
  returns and the sectors collection holds a record whose location is ANM. The reload
  whose sectors query raises while codes of an earlier load are still tracked
  (\<open>reload_with_stale_sector_codes\<close>) is not covered.
\<close>

theorem load_creates_anm:
  assumes "path_exists db" and "connect_ok db"
    and "case sectors_table db of None \<Rightarrow> True | Some rows \<Rightarrow> integer_ids rows"
    and "sectors_tracked db st"
  shows "\<exists>st'. load order d1 d2 db st = Inr st' \<and> has_sector st' ''ANM''"
proof -
  let ?st0 = "load_tables db (st\<lparr>conn := Some Open\<rparr>)"
  have tr0: "sectors_tracked db (st\<lparr>conn := Some Open\<rparr>)"
    using assms(4) by (simp only: sectors_tracked_conn)
  have "codes_ok ?st0" using tr0 by (rule load_tables_tracked)
  moreover have "integer_ids (sectors ?st0)"
    using tr0 assms(3) by (rule load_tables_integer_ids)
  ultimately have "has_sector (repair_sectors order d1 d2 ?st0) ''ANM''"
    by (rule repair_sectors_anm)
  then show ?thesis using assms(1,2) by (simp add: load_def)
qed

theorem load_creates_anm_witness:
  "(\<exists>st'. load id example_date example_date example_db DataLoader_init = Inr st'
         \<and> has_sector st' ''ANM'')
   \<and> (\<exists>st'. load id example_date example_date full_db loaded_once = Inr st'
         \<and> has_sector st' ''ANM'')"
proof -
  have h1: "path_exists example_db" and h2: "connect_ok example_db"
    by (simp_all add: example_db_def)
  have h3: "case sectors_table example_db of None \<Rightarrow> True | Some rows \<Rightarrow> integer_ids rows"
    by (simp add: example_db_def integer_ids_def sector_ids_def dict_get_def)
  have h4: "sectors_tracked example_db DataLoader_init"
    by (simp add: sectors_tracked_def example_db_def get_table_list_def)
  have g1: "path_exists full_db" and g2: "connect_ok full_db"
    by (simp_all add: full_db_def)
  have g3: "case sectors_table full_db of None \<Rightarrow> True | Some rows \<Rightarrow> integer_ids rows"
    by (simp add: full_db_def integer_ids_def sector_ids_def dict_get_def)
  have g4: "sectors_tracked full_db loaded_once"
    by (simp add: sectors_tracked_def full_db_def get_table_list_def)
  from load_creates_anm [OF h1 h2 h3 h4, of id example_date example_date]
    load_creates_anm [OF g1 g2 g3 g4, of id example_date example_date]
  show ?thesis by blast
qed

text \<open>
  When the connection cannot be opened, \<open>load\<close> returns without raising and the sectors
  collection is empty: it holds no record for ANM.
\<close>

theorem no_anm_when_connect_fails:
  "\<not> isl (load id example_date example_date unreachable_db DataLoader_init)
   \<and> sectors (projr (load id example_date example_date unreachable_db DataLoader_init)) = []"
  by (simp add: unreachable_db_def DataLoader_init_def load_def)

subsection \<open>Resolution of the sector prefixes\<close>

text \<open>
  Claim C1, as amended. For every call of \<open>load\<close>, on a fresh loader or on one that has
  loaded before, on a well typed store, whatever the order in which the missing codes are
  iterated: when the loader's sector codes are tracked for the store and the collections
  it keeps have no numeric location (both are so on a fresh loader, and on every loader
  when the four tables are listed and the sectors table is read), \<open>load\<close> returns, and
  afterwards the first three characters of every subsector and system location of at least
  three characters are the location of a sector record; so is the sector code of every
  planet location of at least three characters (its first three characters, or the part
  before the first \<open>/\<close> when it has one and that part is not empty). Nothing is
  synthesized for the subsector and system levels. Two cases are not covered: the reload
  whose sectors query raises while codes of an earlier load are still tracked
  (\<open>reload_with_stale_sector_codes\<close>), and a location that is a number
  (\<open>numeric_location_ends_stub_pass\<close>).
\<close>

theorem load_resolves_sectors:
  assumes ex: "path_exists db"
    and iter: "\<forall>xs. set (order xs) = set xs"
    and wt: "well_typed db"
    and tr: "sectors_tracked db st"
    and kept: "kept_rows_typed db st"
  shows "\<exists>st'. load order d1 d2 db st = Inr st' \<and>
     (\<forall>r \<in> set (subsectors st') \<union> set (systems st'). \<forall>s.
         dict_get r ''location'' (VStr []) = VStr s \<and> 3 \<le> length s
           \<longrightarrow> has_sector st' (take 3 s)) \<and>
     (\<forall>r \<in> set (planets st'). \<forall>s.
         dict_get r ''location'' (VStr []) = VStr s \<and> 3 \<le> length s
           \<and> planet_sector_code s \<noteq> []
           \<longrightarrow> has_sector st' (planet_sector_code s))"
proof -
  from load_resolves_refs[OF assms, of d1 d2] obtain st' where
    ld: "load order d1 d2 db st = Inr st'"
    and refs: "\<forall>c \<in> set (sector_refs planet_sector_code (planets st'))
              \<union> set (sector_refs (take 3) (systems st'))
              \<union> set (sector_refs (take 3) (subsectors st')). has_sector st' c"
    by blast
  have a: "has_sector st' (take 3 s)"
    if "r \<in> set (subsectors st') \<union> set (systems st')"
      and "dict_get r ''location'' (VStr []) = VStr s" and "3 \<le> length s" for r s
  proof -
    from that(3) have ne: "take 3 s \<noteq> []" by auto
    from that(1) show ?thesis
    proof
      assume "r \<in> set (subsectors st')"
      from sector_refs_member[OF this that(2,3), of "take 3"] ne refs show ?thesis by blast
    next
      assume "r \<in> set (systems st')"
      from sector_refs_member[OF this that(2,3), of "take 3"] ne refs show ?thesis by blast
    qed
  qed
  have b: "has_sector st' (planet_sector_code s)"
    if "r \<in> set (planets st')"
      and "dict_get r ''location'' (VStr []) = VStr s" and "3 \<le> length s"
      and "planet_sector_code s \<noteq> []" for r s
    using sector_refs_member[where f = planet_sector_code, OF that] refs by blast
  from ld a b show ?thesis by blast
qed

theorem load_resolves_sectors_witness:
  "(\<exists>st'. load id example_date example_date full_db loaded_once = Inr st' \<and>
     (\<forall>r \<in> set (subsectors st') \<union> set (systems st'). \<forall>s.
         dict_get r ''location'' (VStr []) = VStr s \<and> 3 \<le> length s
           \<longrightarrow> has_sector st' (take 3 s)) \<and>
     (\<forall>r \<in> set (planets st'). \<forall>s.
         dict_get r ''location'' (VStr []) = VStr s \<and> 3 \<le> length s
           \<and> planet_sector_code s \<noteq> []
           \<longrightarrow> has_sector st' (planet_sector_code s)))
   \<and> subsectors (projr (load id example_date example_date full_db loaded_once)) =
       [[(''id'', VInt 1), (''location'', VStr ''DDD123'')]]
   \<and> systems (projr (load id example_date example_date full_db loaded_once)) =
       [[(''id'', VInt 1), (''location'', VStr ''EEE1234'')]]
   \<and> has_sector (projr (load id example_date example_date full_db loaded_once)) ''DDD''
   \<and> has_sector (projr (load id example_date example_date full_db loaded_once)) ''EEE''
   \<and> has_sector (projr (load id example_date example_date full_db loaded_once)) ''BBB''
   \<and> has_sector (projr (load id example_date example_date full_db loaded_once)) ''CCC''"
proof -
  have h1: "path_exists full_db" by (simp add: full_db_def)
  have h2: "\<forall>xs :: string list. set (id xs) = set xs" by simp
  have h3: "well_typed full_db"
    by (simp add: well_typed_def full_db_def integer_ids_def sector_ids_def dict_get_def
          text_locations_def)
  have h4: "sectors_tracked full_db loaded_once"
    by (simp add: sectors_tracked_def full_db_def get_table_list_def)
  have h5: "kept_rows_typed full_db loaded_once"
    by (simp add: kept_rows_typed_def full_db_def get_table_list_def)
  have c: "has_sector (projr (load id example_date example_date full_db loaded_once)) ''DDD''"
    "has_sector (projr (load id example_date example_date full_db loaded_once)) ''EEE''"
    "has_sector (projr (load id example_date example_date full_db loaded_once)) ''BBB''"
    "has_sector (projr (load id example_date example_date full_db loaded_once)) ''CCC''"
    by (simp_all add: has_sector_def reload_full_state stub_sector_def dict_get_def)
  from load_resolves_sectors [OF h1 h2 h3 h4 h5, of example_date example_date] c
    reload_full_state(2,3)
  show ?thesis by blast
qed

text \<open>
  On the example store the planet at \<open>BBB11111\<close> is loaded, and no subsector and no
  system is: its prefixes of length 6 and 7 are the location of no record.
\<close>

theorem planet_prefixes_unresolved:
  "\<not> isl (load id example_date example_date example_db DataLoader_init)
   \<and> planets (projr (load id example_date example_date example_db DataLoader_init)) =
       [[(''id'', VInt 1), (''location'', VStr ''BBB11111'')],
        [(''id'', VInt 2), (''location'', VStr ''CCC/222/1/1'')]]
   \<and> subsectors (projr (load id example_date example_date example_db DataLoader_init)) = []
   \<and> systems (projr (load id example_date example_date example_db DataLoader_init)) = []"
  by (simp add: example_load_others)

end
